theory Spec2Isabelle
  imports Main "HOL-Library.Sublist"
begin

section \<open>JavaScript values\<close>

text \<open>
  The worker (\<^verbatim>\<open>src/unnamed/part_000\<close>, the most recent of the three drafts of
  \<^verbatim>\<open>worker.js\<close>) handles JSON: request bodies parsed by \<^verbatim>\<open>req.json()\<close> and the
  documents the Grocy backend serves. A value is a JSON value or \<^verbatim>\<open>undefined\<close>,
  which is what reading an absent property gives.

  Numbers are integers: the identifiers and amounts the claims speak about, in the
  range where a JavaScript number is an exact integer and prints in decimal. A string
  is a list of characters with code below 256, read as the UTF-16 code units of that
  range (ASCII and Latin-1). An object is the list of its members, each name once, as
  \<^verbatim>\<open>JSON.parse\<close> and an object literal make it.
\<close>

datatype jv =
    JUndef
  | JNull
  | JBool bool
  | JNum int
  | JStr string
  | JArr "jv list"
  | JObj "(string \<times> jv) list"

text \<open>Truthiness, as \<^verbatim>\<open>if (x)\<close>, \<^verbatim>\<open>!x\<close> and \<^verbatim>\<open>x || y\<close> test it.\<close>

fun truthy :: "jv \<Rightarrow> bool" where
  "truthy JUndef = False"
| "truthy JNull = False"
| "truthy (JBool b) = b"
| "truthy (JNum n) = (n \<noteq> 0)"
| "truthy (JStr s) = (s \<noteq> [])"
| "truthy (JArr xs) = True"
| "truthy (JObj kvs) = True"

text \<open>\<^verbatim>\<open>x == null\<close>, the test behind \<^verbatim>\<open>??\<close> and \<^verbatim>\<open>?.\<close>.\<close>

fun nullish :: "jv \<Rightarrow> bool" where
  "nullish JUndef = True"
| "nullish JNull = True"
| "nullish (JBool b) = False"
| "nullish (JNum n) = False"
| "nullish (JStr s) = False"
| "nullish (JArr xs) = False"
| "nullish (JObj kvs) = False"

definition js_or :: "jv \<Rightarrow> jv \<Rightarrow> jv" where
  "js_or a b = (if truthy a then a else b)"

definition coalesce :: "jv \<Rightarrow> jv \<Rightarrow> jv" where
  "coalesce a b = (if nullish a then b else a)"

text \<open>\<^verbatim>\<open>typeof x === "number"\<close> and \<^verbatim>\<open>typeof x === "string"\<close>.\<close>

fun is_number :: "jv \<Rightarrow> bool" where
  "is_number (JNum n) = True"
| "is_number JUndef = False"
| "is_number JNull = False"
| "is_number (JBool b) = False"
| "is_number (JStr s) = False"
| "is_number (JArr xs) = False"
| "is_number (JObj kvs) = False"

fun is_string :: "jv \<Rightarrow> bool" where
  "is_string (JStr s) = True"
| "is_string JUndef = False"
| "is_string JNull = False"
| "is_string (JBool b) = False"
| "is_string (JNum n) = False"
| "is_string (JArr xs) = False"
| "is_string (JObj kvs) = False"

text \<open>
  \<^verbatim>\<open>a === b\<close>. Two arrays or two objects are equal only when they are the same
  object; values parsed from different documents never are.
\<close>

fun strict_eq :: "jv \<Rightarrow> jv \<Rightarrow> bool" where
  "strict_eq JUndef JUndef = True"
| "strict_eq JNull JNull = True"
| "strict_eq (JBool a) (JBool b) = (a = b)"
| "strict_eq (JNum a) (JNum b) = (a = b)"
| "strict_eq (JStr a) (JStr b) = (a = b)"
| "strict_eq a b = False"

text \<open>
  Reading a property \<^verbatim>\<open>x.k\<close> of a value that is not \<^verbatim>\<open>null\<close> or
  \<^verbatim>\<open>undefined\<close>: an object gives the member or \<^verbatim>\<open>undefined\<close>, any other value
  gives \<^verbatim>\<open>undefined\<close> for the member names the worker reads. Reading a property of
  \<^verbatim>\<open>null\<close> or \<^verbatim>\<open>undefined\<close> throws a TypeError; where the worker does that to a
  value taken from the request, or to an entry of the catalogue it resolves a product
  against, the throw is written out at that place.
\<close>

fun js_get :: "jv \<Rightarrow> string \<Rightarrow> jv" where
  "js_get (JObj kvs) k = (case map_of kvs k of Some v \<Rightarrow> v | None \<Rightarrow> JUndef)"
| "js_get JUndef k = JUndef"
| "js_get JNull k = JUndef"
| "js_get (JBool b) k = JUndef"
| "js_get (JNum n) k = JUndef"
| "js_get (JStr s) k = JUndef"
| "js_get (JArr xs) k = JUndef"

text \<open>\<^verbatim>\<open>x?.k\<close>.\<close>

definition js_opt_get :: "jv \<Rightarrow> string \<Rightarrow> jv" where
  "js_opt_get x k = (if nullish x then JUndef else js_get x k)"

text \<open>The elements of a collection the backend serves (a JSON array).\<close>

fun elems :: "jv \<Rightarrow> jv list" where
  "elems (JArr xs) = xs"
| "elems JUndef = []"
| "elems JNull = []"
| "elems (JBool b) = []"
| "elems (JNum n) = []"
| "elems (JStr s) = []"
| "elems (JObj kvs) = []"

text \<open>\<^verbatim>\<open>Array.isArray(x)\<close>.\<close>

fun is_array :: "jv \<Rightarrow> bool" where
  "is_array (JArr xs) = True"
| "is_array JUndef = False"
| "is_array JNull = False"
| "is_array (JBool b) = False"
| "is_array (JNum n) = False"
| "is_array (JStr s) = False"
| "is_array (JObj kvs) = False"

text \<open>\<^verbatim>\<open>xs.find(p)\<close>: the first element that satisfies \<open>p\<close>, or \<^verbatim>\<open>undefined\<close>.\<close>

fun js_find :: "(jv \<Rightarrow> bool) \<Rightarrow> jv list \<Rightarrow> jv" where
  "js_find p [] = JUndef"
| "js_find p (x # xs) = (if p x then x else js_find p xs)"

text \<open>
  \<^verbatim>\<open>xs.find(p)\<close> and \<^verbatim>\<open>xs.some(p)\<close> for a callback that may throw (\<open>None\<close>): the
  elements are tried in their order, and the exception of the first callback that
  throws ends the search. On the empty array the callback is never called.
\<close>

fun js_find_opt :: "(jv \<Rightarrow> bool option) \<Rightarrow> jv list \<Rightarrow> jv option" where
  "js_find_opt p [] = Some JUndef"
| "js_find_opt p (x # xs) =
     (case p x of
        None \<Rightarrow> None
      | Some b \<Rightarrow> if b then Some x else js_find_opt p xs)"

fun js_some_opt :: "(jv \<Rightarrow> bool option) \<Rightarrow> jv list \<Rightarrow> bool option" where
  "js_some_opt p [] = Some False"
| "js_some_opt p (x # xs) =
     (case p x of
        None \<Rightarrow> None
      | Some b \<Rightarrow> if b then Some True else js_some_opt p xs)"

subsection \<open>Conversion to a string\<close>

definition digit_char :: "nat \<Rightarrow> char" where
  "digit_char d = ''0123456789'' ! d"

function nat_dec :: "nat \<Rightarrow> string" where
  "nat_dec n = (if n < 10 then [digit_char n] else nat_dec (n div 10) @ [digit_char (n mod 10)])"
  by pat_completeness auto
termination
  by (relation "measure id") auto

declare nat_dec.simps [simp del]

definition int_dec :: "int \<Rightarrow> string" where
  "int_dec i = (if i < 0 then CHR ''-'' # nat_dec (nat (- i)) else nat_dec (nat i))"

fun join_comma :: "string list \<Rightarrow> string" where
  "join_comma [] = []"
| "join_comma [s] = s"
| "join_comma (s # t # ss) = s @ CHR '','' # join_comma (t # ss)"

text \<open>
  \<^verbatim>\<open>String(x)\<close>, which is also what a template literal and a property key do to a
  value; \<open>None\<close> when the conversion throws a TypeError. An array joins its elements
  with commas, \<^verbatim>\<open>null\<close> and \<^verbatim>\<open>undefined\<close> elements as the empty string. An
  object is converted by its \<^verbatim>\<open>toString\<close>: the one it inherits gives
  \<^verbatim>\<open>[object Object]\<close>; a member of its own with that name, which in a JSON value is
  never a function, hides the inherited one, and the conversion throws (the inherited
  \<^verbatim>\<open>valueOf\<close>, tried next, gives the object back).
\<close>

fun js_string :: "jv \<Rightarrow> string option" where
  "js_string JUndef = Some ''undefined''"
| "js_string JNull = Some ''null''"
| "js_string (JBool b) = Some (if b then ''true'' else ''false'')"
| "js_string (JNum n) = Some (int_dec n)"
| "js_string (JStr s) = Some s"
| "js_string (JArr xs) =
     map_option join_comma (those (map (\<lambda>x. if nullish x then Some [] else js_string x) xs))"
| "js_string (JObj kvs) =
     (case map_of kvs ''toString'' of
        None \<Rightarrow> Some ''[object Object]''
      | Some v \<Rightarrow> None)"

text \<open>
  \<^verbatim>\<open>JSON.stringify\<close> as the client reads it back: a member whose value is
  \<^verbatim>\<open>undefined\<close> is left out of its object, an \<^verbatim>\<open>undefined\<close> array element
  becomes \<^verbatim>\<open>null\<close>.
\<close>

fun is_undef :: "jv \<Rightarrow> bool" where
  "is_undef JUndef = True"
| "is_undef JNull = False"
| "is_undef (JBool b) = False"
| "is_undef (JNum n) = False"
| "is_undef (JStr s) = False"
| "is_undef (JArr xs) = False"
| "is_undef (JObj kvs) = False"

fun stringify :: "jv \<Rightarrow> jv" where
  "stringify (JArr xs) = JArr (map (\<lambda>x. if is_undef x then JNull else stringify x) xs)"
| "stringify (JObj kvs) =
     JObj (map (\<lambda>(k, v). (k, stringify v)) (filter (\<lambda>(k, v). \<not> is_undef v) kvs))"
| "stringify JUndef = JUndef"
| "stringify JNull = JNull"
| "stringify (JBool b) = JBool b"
| "stringify (JNum n) = JNum n"
| "stringify (JStr s) = JStr s"

section \<open>Normalizer and scorer\<close>

subsection \<open>String operations\<close>

definition lower_char :: "char \<Rightarrow> char" where
  "lower_char c =
     (let n = (of_char c :: nat)
      in if (65 \<le> n \<and> n \<le> 90) \<or> (192 \<le> n \<and> n \<le> 222 \<and> n \<noteq> 215)
         then char_of (n + 32) else c)"

definition toLowerCase :: "string \<Rightarrow> string" where
  "toLowerCase s = map lower_char s"

text \<open>
  White space, for \<^verbatim>\<open>trim()\<close> and for \<^verbatim>\<open>\s\<close> alike: tab, line feed, vertical
  tab, form feed, carriage return, space and the no-break space.
\<close>

definition is_space :: "char \<Rightarrow> bool" where
  "is_space c =
     (let n = (of_char c :: nat)
      in (9 \<le> n \<and> n \<le> 13) \<or> n = 32 \<or> n = 160)"

definition trim :: "string \<Rightarrow> string" where
  "trim s = rev (dropWhile is_space (rev (dropWhile is_space s)))"

text \<open>The characters \<^verbatim>\<open>[a-z0-9\s]\<close>, which \<^verbatim>\<open>.replace(/[^a-z0-9\s]/g, "")\<close> keeps.\<close>

definition kept_char :: "char \<Rightarrow> bool" where
  "kept_char c =
     (let n = (of_char c :: nat)
      in (97 \<le> n \<and> n \<le> 122) \<or> (48 \<le> n \<and> n \<le> 57) \<or> is_space c)"

fun startsWith :: "string \<Rightarrow> string \<Rightarrow> bool" where
  "startsWith s [] = True"
| "startsWith [] (q # qs) = False"
| "startsWith (c # cs) (q # qs) = (c = q \<and> startsWith cs qs)"

fun js_includes :: "string \<Rightarrow> string \<Rightarrow> bool" where
  "js_includes [] q = startsWith [] q"
| "js_includes (c # cs) q = (startsWith (c # cs) q \<or> js_includes cs q)"

subsection \<open>normalize and scoreProduct (lines 81-93)\<close>

text \<open>
  \<^verbatim>\<open>String(str || "").toLowerCase().trim().replace(/[^a-z0-9\s]/g, "")\<close>: the three
  calls on the string, and the function with the conversion before them, which throws
  (\<open>None\<close>) where \<^verbatim>\<open>String\<close> does.
\<close>

definition normalize_text :: "string \<Rightarrow> string" where
  "normalize_text s = filter kept_char (trim (toLowerCase s))"

definition normalize_str :: "jv \<Rightarrow> string option" where
  "normalize_str str = map_option normalize_text (js_string (js_or str (JStr [])))"

text \<open>\<^verbatim>\<open>normalize(a) === normalize(b)\<close>, the left side first.\<close>

definition normalize_eq :: "jv \<Rightarrow> jv \<Rightarrow> bool option" where
  "normalize_eq a b =
     (case normalize_str a of
        None \<Rightarrow> None
      | Some x \<Rightarrow> (case normalize_str b of None \<Rightarrow> None | Some y \<Rightarrow> Some (x = y)))"

definition scoreProduct :: "string \<Rightarrow> string \<Rightarrow> nat" where
  "scoreProduct name query =
     (if name = query then 100
      else if startsWith name query then 60
      else if js_includes name query then 30
      else 0)"

section \<open>Fuzzy product resolution (lines 151-175)\<close>

record pmatch =
  match_id :: jv
  match_name :: jv
  match_score :: nat

text \<open>
  \<^verbatim>\<open>Array.prototype.sort\<close> with a comparator is a stable sort: an insertion sort
  that puts an element before the first one it does not have to follow.
\<close>

fun insert_by :: "('a \<Rightarrow> 'a \<Rightarrow> int) \<Rightarrow> 'a \<Rightarrow> 'a list \<Rightarrow> 'a list" where
  "insert_by cmp x [] = [x]"
| "insert_by cmp x (y # ys) =
     (if cmp x y \<le> 0 then x # y # ys else y # insert_by cmp x ys)"

definition sort_by :: "('a \<Rightarrow> 'a \<Rightarrow> int) \<Rightarrow> 'a list \<Rightarrow> 'a list" where
  "sort_by cmp xs = foldr (insert_by cmp) xs []"

text \<open>The comparator \<^verbatim>\<open>(a, b) => b.score - a.score\<close>.\<close>

definition by_score_desc :: "pmatch \<Rightarrow> pmatch \<Rightarrow> int" where
  "by_score_desc a b = int (match_score b) - int (match_score a)"

text \<open>
  The callback of \<^verbatim>\<open>products.map\<close>: a candidate whose name is falsy (absent,
  \<^verbatim>\<open>null\<close>, empty) scores 0 without being normalized. \<open>None\<close> is the TypeError
  of \<^verbatim>\<open>p.id\<close> for an entry \<open>p\<close> that is \<^verbatim>\<open>null\<close>, or of \<^verbatim>\<open>normalize(p.name)\<close>.
\<close>

definition scored :: "string \<Rightarrow> jv \<Rightarrow> pmatch option" where
  "scored query p =
     (if nullish p then None
      else if truthy (js_get p ''name'') then
        (case normalize_str (js_get p ''name'') of
           None \<Rightarrow> None
         | Some n \<Rightarrow>
             Some \<lparr> match_id = js_get p ''id'', match_name = js_get p ''name'',
                    match_score = scoreProduct n query \<rparr>)
      else Some \<lparr> match_id = js_get p ''id'', match_name = js_get p ''name'', match_score = 0 \<rparr>)"

text \<open>
  The local \<^verbatim>\<open>matches\<close>; the product search endpoint computes the same list with
  its own limit.
\<close>

definition ranked :: "nat \<Rightarrow> jv list \<Rightarrow> string \<Rightarrow> pmatch list option" where
  "ranked limit products query =
     (case those (map (scored query) products) of
        None \<Rightarrow> None
      | Some candidates \<Rightarrow>
          Some (take limit
                  (sort_by by_score_desc (filter (\<lambda>p. match_score p > 0) candidates))))"

definition fuzzy_matches :: "jv list \<Rightarrow> jv \<Rightarrow> pmatch list option" where
  "fuzzy_matches products productName =
     (case normalize_str productName of
        None \<Rightarrow> None
      | Some query \<Rightarrow> ranked 5 products query)"

text \<open>
  The result is \<^verbatim>\<open>{ error: e }\<close> or \<^verbatim>\<open>{ product: matches[0] }\<close>; \<open>None\<close> when
  line 152 or the callback of line 153 throws.
\<close>

datatype resolved = ResError jv | ResProduct pmatch

definition resolveProductFuzzy :: "jv list \<Rightarrow> jv \<Rightarrow> resolved option" where
  "resolveProductFuzzy products productName =
     (case fuzzy_matches products productName of
        None \<Rightarrow> None
      | Some [] \<Rightarrow>
          Some (ResError (JObj [(''error'', JStr ''product_not_found''),
                                (''product'', productName)]))
      | Some (m # ms) \<Rightarrow>
          if length (m # ms) > 1 \<and> match_score m < 100
          then Some (ResError
                       (JObj [(''error'', JStr ''multiple_products''),
                              (''products'',
                               JArr (map (\<lambda>m. JObj [(''id'', match_id m), (''name'', match_name m)])
                                       (m # ms)))]))
          else Some (ResProduct m))"

section \<open>The backend, the cache and the configuration\<close>

text \<open>
  The backend is the Grocy REST service, reached by \<^verbatim>\<open>fetch\<close>. A call is its
  method, its URL (relative to \<^verbatim>\<open>upstreamBase\<close>; the image URL of a product is the
  one absolute URL) and the JSON body it sends. The backend's answer to a call is a
  function of the call. The theory takes for granted that \<^verbatim>\<open>fetch\<close> resolves to a
  response with a status and that a body which is JSON has the shape the backend's
  contract gives it: a collection is a JSON array of objects, the details of a product
  and a created object are objects. It does not take for granted that a body is JSON,
  nor what the members of these objects are: where the worker converts a member to a
  string, the conversion may throw. The resolution of a product is defined for any
  list of candidates, an entry that is \<^verbatim>\<open>null\<close> included.
\<close>

record call =
  c_method :: string
  c_url :: string
  c_body :: jv

definition GET :: "string \<Rightarrow> call" where
  "GET url = \<lparr> c_method = ''GET'', c_url = url, c_body = JUndef \<rparr>"

definition POST :: "string \<Rightarrow> jv \<Rightarrow> call" where
  "POST url b = \<lparr> c_method = ''POST'', c_url = url, c_body = stringify b \<rparr>"

text \<open>
  The text of a body: the JSON text of a value, or a text that is not JSON (an HTML
  page, a plain message). \<^verbatim>\<open>.json()\<close> parses the text and throws a SyntaxError when
  it is not JSON.
\<close>

datatype btext = JsonText jv | OtherText string

datatype exn = Error string | TypeError | SyntaxError

fun parse_json :: "btext \<Rightarrow> exn + jv" where
  "parse_json (JsonText v) = Inr v"
| "parse_json (OtherText t) = Inl SyntaxError"

text \<open>
  Of a response: the status, the text of the body, that text as the message
  \<^verbatim>\<open>.text()\<close> reads from the answer to an upload, and the two headers the image
  upload looks at (the content length as a number, 0 when the header is absent).
\<close>

record fresp =
  f_status :: nat
  payload :: btext
  raw :: string
  content_length :: nat
  content_type :: string

definition ok :: "fresp \<Rightarrow> bool" where
  "ok r = (200 \<le> f_status r \<and> f_status r \<le> 299)"

text \<open>
  An entry of the Cache API: the text of the stored body with the \<^verbatim>\<open>max-age\<close> of its
  \<^verbatim>\<open>Cache-Control\<close> header and the time it was stored at. The Cache API is the
  platform's, not the worker's: that \<^verbatim>\<open>cache.match\<close> gives an entry back while it
  is younger than its \<^verbatim>\<open>max-age\<close>, and not after, is what the platform documents.
\<close>

record centry =
  stored :: btext
  max_age :: nat
  stored_at :: nat

record world =
  backend :: "call \<Rightarrow> fresp"
  now :: nat
  cache :: "string \<rightharpoonup> centry"
  calls :: "call list"

definition fetch :: "call \<Rightarrow> world \<Rightarrow> fresp \<times> world" where
  "fetch c w = (backend w c, w\<lparr> calls := calls w @ [c] \<rparr>)"

definition cache_match :: "world \<Rightarrow> string \<Rightarrow> btext option" where
  "cache_match w key =
     (case cache w key of
        None \<Rightarrow> None
      | Some e \<Rightarrow> if now w < stored_at e + max_age e then Some (stored e) else None)"

definition cache_put :: "world \<Rightarrow> string \<Rightarrow> btext \<Rightarrow> nat \<Rightarrow> world" where
  "cache_put w key v ttlSeconds =
     w\<lparr> cache := (cache w)(key \<mapsto> \<lparr> stored = v, max_age = ttlSeconds, stored_at = now w \<rparr>) \<rparr>"

definition cache_delete :: "world \<Rightarrow> string \<Rightarrow> world" where
  "cache_delete w key = w\<lparr> cache := (cache w)(key := None) \<rparr>"

text \<open>
  The environment of the worker, as far as the enriched endpoints read it. A variable
  that is not set is the empty string (or \<open>None\<close>), which \<^verbatim>\<open>||\<close> replaces by the
  default.
\<close>

record env =
  ENV_CACHE_VERSION :: string
  ENV_CACHE_DURATION :: "nat option"
  ENV_DEFAULT_LOCATION_NAME :: string
  ENV_DEFAULT_STOCK_UNIT :: string
  ENV_DEFAULT_PURCHASE_UNIT :: string
  ENV_DEFAULT_CONSUME_UNIT :: string
  ENV_DEFAULT_PRICE_UNIT :: string

definition CACHE_VERSION :: "env \<Rightarrow> string" where
  "CACHE_VERSION e = (if ENV_CACHE_VERSION e \<noteq> [] then ENV_CACHE_VERSION e else ''v1.1'')"

definition CACHE_DURATION :: "env \<Rightarrow> nat" where
  "CACHE_DURATION e = (case ENV_CACHE_DURATION e of None \<Rightarrow> 21600 | Some d \<Rightarrow> d)"

definition DEFAULT_LOCATION_NAME :: "env \<Rightarrow> jv" where
  "DEFAULT_LOCATION_NAME e = js_or (JStr (ENV_DEFAULT_LOCATION_NAME e)) (JStr ''Fridge'')"

definition DEFAULT_UNITS :: "env \<Rightarrow> jv" where
  "DEFAULT_UNITS e =
     JObj [(''stock'', js_or (JStr (ENV_DEFAULT_STOCK_UNIT e)) (JStr ''Piece'')),
           (''purchase'', js_or (JStr (ENV_DEFAULT_PURCHASE_UNIT e)) (JStr ''Piece'')),
           (''consume'', js_or (JStr (ENV_DEFAULT_CONSUME_UNIT e)) (JStr ''Piece'')),
           (''price'', js_or (JStr (ENV_DEFAULT_PRICE_UNIT e)) (JStr ''Piece''))]"

definition cache_key :: "env \<Rightarrow> string \<Rightarrow> string" where
  "cache_key e name = ''https://cache.local/'' @ CACHE_VERSION e @ ''/grocy/'' @ name"

section \<open>Responses (lines 65-79)\<close>

datatype rbody = JsonBody jv | TextBody string

record response =
  r_status :: nat
  r_body :: rbody

text \<open>\<^verbatim>\<open>json(obj, status)\<close>, \<^verbatim>\<open>jsonError(status, obj)\<close> and \<^verbatim>\<open>new Response(text, { status })\<close>.\<close>

definition json :: "jv \<Rightarrow> nat \<Rightarrow> response" where
  "json obj status = \<lparr> r_status = status, r_body = JsonBody (stringify obj) \<rparr>"

definition jsonError :: "nat \<Rightarrow> jv \<Rightarrow> response" where
  "jsonError status obj = json obj status"

definition text_response :: "string \<Rightarrow> nat \<Rightarrow> response" where
  "text_response t status = \<lparr> r_status = status, r_body = TextBody t \<rparr>"

definition error_code :: "string \<Rightarrow> jv" where
  "error_code c = JObj [(''error'', JStr c)]"

text \<open>
  What a handler ends with: a response, or an exception nobody catches (the platform
  then answers in the worker's place).
\<close>

datatype outcome = Responded response | Uncaught exn

text \<open>\<^verbatim>\<open>safeJson\<close>: the parsed body, \<^verbatim>\<open>null\<close> when the body is not JSON (\<open>None\<close>).\<close>

definition safeJson :: "jv option \<Rightarrow> jv" where
  "safeJson rb = (case rb of None \<Rightarrow> JNull | Some v \<Rightarrow> v)"

section \<open>The cache-aside store (lines 95-149)\<close>

text \<open>
  The fetcher is the call it makes; invoking it is \<open>fetch\<close>. On a hit the stored text
  is parsed (line 98). On a miss with a successful response the text is stored (line
  111) and parsed after that (line 112): a text that is not JSON is in the cache when
  the SyntaxError is thrown.
\<close>

definition cacheGetJson :: "world \<Rightarrow> string \<Rightarrow> call \<Rightarrow> nat \<Rightarrow> (exn + jv) \<times> world" where
  "cacheGetJson w cacheKeyUrl fetcher ttlSeconds =
     (case cache_match w cacheKeyUrl of
        Some cached \<Rightarrow> (parse_json cached, w)
      | None \<Rightarrow>
          (case fetch fetcher w of
             (resp, w1) \<Rightarrow>
               if \<not> ok resp then (Inr JNull, w1)
               else (parse_json (payload resp),
                     cache_put w1 cacheKeyUrl (payload resp) ttlSeconds)))"

text \<open>
  \<^verbatim>\<open>getCachedProducts\<close>, \<^verbatim>\<open>getCachedShoppingLists\<close> and \<^verbatim>\<open>getCachedStores\<close>
  are one function up to the key, the URL and the message of the error they throw for
  a falsy result. An exception of \<^verbatim>\<open>cacheGetJson\<close> passes through them.
\<close>

definition getCached :: "env \<Rightarrow> string \<Rightarrow> string \<Rightarrow> string \<Rightarrow> world \<Rightarrow> (exn + jv) \<times> world" where
  "getCached e name url msg w =
     (case cacheGetJson w (cache_key e name) (GET url) (CACHE_DURATION e) of
        (Inl x, w1) \<Rightarrow> (Inl x, w1)
      | (Inr data, w1) \<Rightarrow> if \<not> truthy data then (Inl (Error msg), w1) else (Inr data, w1))"

definition getCachedProducts :: "env \<Rightarrow> world \<Rightarrow> (exn + jv) \<times> world" where
  "getCachedProducts e w =
     getCached e ''products'' ''/api/objects/products'' ''Failed to fetch products'' w"

definition getCachedShoppingLists :: "env \<Rightarrow> world \<Rightarrow> (exn + jv) \<times> world" where
  "getCachedShoppingLists e w =
     getCached e ''shopping_lists'' ''/api/objects/shopping_lists''
       ''Failed to fetch shopping lists'' w"

definition getCachedStores :: "env \<Rightarrow> world \<Rightarrow> (exn + jv) \<times> world" where
  "getCachedStores e w =
     getCached e ''stores'' ''/api/objects/shopping_locations'' ''Failed to fetch stores'' w"

section \<open>Adding an item to a shopping list (lines 180-251)\<close>

text \<open>
  \<^verbatim>\<open>Object.fromEntries(pairs)\<close> and \<^verbatim>\<open>obj[key]\<close>: a key is the string of its value
  (\<open>None\<close> when the conversion throws), and a later pair replaces an earlier one with
  the same key. Property names of \<^verbatim>\<open>Object.prototype\<close> are no identifiers of the
  backend and are not looked up.
\<close>

definition fromEntries :: "(jv \<times> jv) list \<Rightarrow> jv option" where
  "fromEntries pairs =
     (case those (map (\<lambda>(k, v). map_option (\<lambda>key. (key, v)) (js_string k)) pairs) of
        None \<Rightarrow> None
      | Some members \<Rightarrow> Some (JObj (rev members)))"

definition js_index :: "jv \<Rightarrow> jv \<Rightarrow> jv option" where
  "js_index obj key = map_option (js_get obj) (js_string key)"

text \<open>The list an item goes to: \<open>Inl\<close> is the response the handler returns at once.\<close>

definition list_choices :: "jv list \<Rightarrow> jv" where
  "list_choices slists =
     JObj [(''error'', JStr ''multiple_lists''),
           (''lists'',
            JArr (map (\<lambda>l. JObj [(''id'', js_get l ''id''), (''name'', js_get l ''name'')]) slists))]"

definition select_list_add :: "jv list \<Rightarrow> jv \<Rightarrow> response + jv" where
  "select_list_add slists shopping_list_id =
     (if truthy shopping_list_id then
        (let selectedList = js_find (\<lambda>l. strict_eq (js_get l ''id'') shopping_list_id) slists
         in if \<not> truthy selectedList
            then Inl (jsonError 400 (error_code ''invalid_shopping_list_id''))
            else Inr selectedList)
      else if length slists = 1 then Inr (slists ! 0)
      else if length slists > 1 then Inl (json (list_choices slists) 400)
      else Inl (jsonError 400 (error_code ''no_shopping_list_found'')))"

definition shopping_list_add :: "env \<Rightarrow> jv option \<Rightarrow> world \<Rightarrow> outcome \<times> world" where
  "shopping_list_add e rb w =
     (let body = safeJson rb in
      if \<not> truthy body then (Responded (jsonError 400 (error_code ''invalid_json'')), w)
      else
        let product = js_get body ''product'';
            amount = js_get body ''amount'';
            note = js_get body ''note'';
            shopping_list_id = js_get body ''shopping_list_id''
        in
        if \<not> truthy product \<or> \<not> is_number amount
        then (Responded (jsonError 400 (error_code ''invalid_request'')), w)
        else
          (case getCachedShoppingLists e w of
             (Inl x, w1) \<Rightarrow>
               (Responded (text_response ''Failed to fetch shopping lists'' 502), w1)
           | (Inr slists, w1) \<Rightarrow>
               (case select_list_add (elems slists) shopping_list_id of
                  Inl resp \<Rightarrow> (Responded resp, w1)
                | Inr selectedList \<Rightarrow>
                    (case getCachedProducts e w1 of
                       (Inl x, w2) \<Rightarrow>
                         (Responded (text_response ''Failed to fetch products'' 502), w2)
                     | (Inr products, w2) \<Rightarrow>
                         (case resolveProductFuzzy (elems products) product of
                            None \<Rightarrow> (Uncaught TypeError, w2)
                          | Some (ResError err) \<Rightarrow> (Responded (json err 400), w2)
                          | Some (ResProduct m) \<Rightarrow>
                              (case fetch
                                      (POST ''/api/stock/shoppinglist/add-product''
                                         (JObj [(''product_id'', match_id m),
                                                (''product_amount'', amount),
                                                (''note'', note),
                                                (''list_id'', js_get selectedList ''id'')]))
                                      w2 of
                                 (addResp, w3) \<Rightarrow>
                                   if \<not> ok addResp
                                   then (Responded (text_response ''Failed to add item'' 502), w3)
                                   else
                                     (Responded
                                        (json
                                           (JObj
                                              [(''status'', JStr ''added''),
                                               (''list'',
                                                JObj [(''id'', js_get selectedList ''id''),
                                                      (''name'', js_get selectedList ''name'')]),
                                               (''item'',
                                                JObj [(''product_id'', match_id m),
                                                      (''product_name'', match_name m),
                                                      (''amount'', amount),
                                                      (''note'', coalesce note JNull)])])
                                           200),
                                      w3)))))))"

section \<open>The enriched shopping list (lines 256-355)\<close>

text \<open>
  \<^verbatim>\<open>url.searchParams.get("list_id")\<close> is a string, or \<^verbatim>\<open>null\<close> (\<open>None\<close>) when
  the parameter is absent.
\<close>

definition param_truthy :: "string option \<Rightarrow> bool" where
  "param_truthy q = (case q of None \<Rightarrow> False | Some r \<Rightarrow> r \<noteq> [])"

definition param_string :: "string option \<Rightarrow> string" where
  "param_string q = (case q of None \<Rightarrow> ''null'' | Some r \<Rightarrow> r)"

text \<open>
  The list that is shown; \<open>None\<close> when \<^verbatim>\<open>String(l.id)\<close> throws in the callback of
  \<^verbatim>\<open>find\<close>.
\<close>

definition select_list_get :: "jv list \<Rightarrow> string option \<Rightarrow> (response + jv) option" where
  "select_list_get slists requestedListId =
     (if param_truthy requestedListId then
        (case js_find_opt
                (\<lambda>l. map_option (\<lambda>lid. lid = param_string requestedListId)
                        (js_string (js_get l ''id'')))
                slists of
           None \<Rightarrow> None
         | Some selectedList \<Rightarrow>
             if \<not> truthy selectedList
             then Some (Inl (jsonError 400 (error_code ''invalid_shopping_list_id'')))
             else Some (Inr selectedList))
      else if length slists = 1 then Some (Inr (slists ! 0))
      else if length slists > 1 then Some (Inl (json (list_choices slists) 400))
      else Some (Inl (json (JObj [(''list'', JNull), (''items'', JArr [])]) 200)))"

text \<open>\<^verbatim>\<open>[...new Set(xs)]\<close>: the distinct elements, each at its first occurrence.\<close>

definition js_set :: "jv list \<Rightarrow> jv list" where
  "js_set xs = rev (remdups (rev xs))"

text \<open>The entry of \<^verbatim>\<open>lastPurchaseMap\<close> made from the details of a product.\<close>

definition last_purchase :: "jv \<Rightarrow> jv" where
  "last_purchase details =
     JObj [(''last_price'', coalesce (js_get details ''last_price'') JNull),
           (''store_id'', coalesce (js_get details ''last_shopping_location_id'') JNull),
           (''price_qu_id'',
            coalesce
              (coalesce (js_opt_get (js_get details ''product'') ''qu_id_price'')
                 (js_get details ''qu_id_price''))
              JNull),
           (''price_qu_name'',
            coalesce (js_opt_get (js_get details ''quantity_unit_price'') ''name'') JNull),
           (''price_to_stock_factor'',
            coalesce (js_get details ''qu_conversion_factor_price_to_stock'') JNull),
           (''purchase_to_stock_factor'',
            coalesce (js_get details ''qu_conversion_factor_purchase_to_stock'') JNull)]"

text \<open>
  \<^verbatim>\<open>Promise.all(productIds.map(async (productId) => ...))\<close>: one cached lookup per
  product. The lookups touch different cache keys and different URLs, and no answer of
  the backend depends on another call, so they are made here one after the other, in
  the order of \<^verbatim>\<open>productIds\<close>. The map is the list of its members, the most recent
  assignment first. A lookup that throws rejects the \<^verbatim>\<open>Promise.all\<close>, which nothing
  catches; the lookups after it are left out here, the response being lost by then.
\<close>

fun lastPurchases :: "env \<Rightarrow> jv list \<Rightarrow> (string \<times> jv) list \<Rightarrow> world \<Rightarrow> (exn + (string \<times> jv) list) \<times> world" where
  "lastPurchases e [] lastPurchaseMap w = (Inr lastPurchaseMap, w)"
| "lastPurchases e (productId # rest) lastPurchaseMap w =
     (case js_string productId of
        None \<Rightarrow> (Inl TypeError, w)
      | Some pid \<Rightarrow>
          (case cacheGetJson w (cache_key e (''stock-product/'' @ pid))
                  (GET (''/api/stock/products/'' @ pid)) 3600 of
             (Inl x, w1) \<Rightarrow> (Inl x, w1)
           | (Inr details, w1) \<Rightarrow>
               if \<not> truthy details then lastPurchases e rest lastPurchaseMap w1
               else lastPurchases e rest ((pid, last_purchase details) # lastPurchaseMap) w1))"

text \<open>
  The callback of \<^verbatim>\<open>items.map\<close> that builds \<^verbatim>\<open>enrichedItems\<close>; \<open>None\<close> when one
  of its three lookups throws.
\<close>

definition enrich :: "jv \<Rightarrow> jv \<Rightarrow> jv \<Rightarrow> jv \<Rightarrow> jv option" where
  "enrich productMap storeMap lastPurchaseMap i =
     (case js_index lastPurchaseMap (js_get i ''product_id'') of
        None \<Rightarrow> None
      | Some purchase \<Rightarrow>
          let last = coalesce purchase (JObj []) in
          (case js_index productMap (js_get i ''product_id'') of
             None \<Rightarrow> None
           | Some product_name \<Rightarrow>
               (case (if truthy (js_get last ''store_id'')
                      then map_option (\<lambda>store. coalesce store JNull)
                             (js_index storeMap (js_get last ''store_id''))
                      else Some JNull) of
                  None \<Rightarrow> None
                | Some last_store \<Rightarrow>
                    Some
                      (JObj
                         [(''product_id'', js_get i ''product_id''),
                          (''product_name'', coalesce product_name (JStr ''Unknown'')),
                          (''amount'', js_get i ''amount''),
                          (''note'', coalesce (js_get i ''note'') JNull),
                          (''last_store'', last_store),
                          (''pricing'',
                           JObj [(''last_price_per_price_unit'', js_get last ''last_price''),
                                 (''price_unit'', js_get last ''price_qu_name''),
                                 (''price_qu_id'', js_get last ''price_qu_id''),
                                 (''amount'', js_get i ''amount''),
                                 (''shopping_list_qu_id'', coalesce (js_get i ''qu_id'') JNull),
                                 (''purchase_to_stock_factor'',
                                  js_get last ''purchase_to_stock_factor''),
                                 (''price_to_stock_factor'',
                                  js_get last ''price_to_stock_factor'')])]))))"

text \<open>
  The handler from the fetch of the items of the selected list on (lines 282-354).
  Only the three cached collections are fetched inside a \<^verbatim>\<open>try\<close>.
\<close>

definition shopping_list_view :: "env \<Rightarrow> jv \<Rightarrow> world \<Rightarrow> outcome \<times> world" where
  "shopping_list_view e selectedList w1 =
     (case js_string (js_get selectedList ''id'') of
        None \<Rightarrow> (Uncaught TypeError, w1)
      | Some list_id \<Rightarrow>
     (case fetch (GET (''/api/objects/shopping_list?list_id='' @ list_id)) w1 of
        (itemsResp, w2) \<Rightarrow>
          if \<not> ok itemsResp
          then (Responded (text_response ''Failed to fetch shopping list items'' 502), w2)
          else
     (case parse_json (payload itemsResp) of
        Inl x \<Rightarrow> (Uncaught x, w2)
      | Inr fetched \<Rightarrow>
          let items = take 50 (elems fetched);
              productIds = js_set (filter is_number (map (\<lambda>i. js_get i ''product_id'') items))
          in
     (case getCachedProducts e w2 of
        (Inl x, w3) \<Rightarrow> (Responded (text_response ''Failed to fetch products'' 502), w3)
      | (Inr products, w3) \<Rightarrow>
     (case fromEntries (map (\<lambda>p. (js_get p ''id'', js_get p ''name'')) (elems products)) of
        None \<Rightarrow> (Uncaught TypeError, w3)
      | Some productMap \<Rightarrow>
     (case getCachedStores e w3 of
        (Inl x, w4) \<Rightarrow> (Responded (text_response ''Failed to fetch stores'' 502), w4)
      | (Inr stores, w4) \<Rightarrow>
     (case fromEntries (map (\<lambda>s. (js_get s ''id'', js_get s ''name'')) (elems stores)) of
        None \<Rightarrow> (Uncaught TypeError, w4)
      | Some storeMap \<Rightarrow>
     (case lastPurchases e productIds [] w4 of
        (Inl x, w5) \<Rightarrow> (Uncaught x, w5)
      | (Inr lastPurchaseMap, w5) \<Rightarrow>
     (case those (map (enrich productMap storeMap (JObj lastPurchaseMap)) items) of
        None \<Rightarrow> (Uncaught TypeError, w5)
      | Some enrichedItems \<Rightarrow>
          (Responded
             (json
                (JObj
                   [(''list'',
                     JObj [(''id'', js_get selectedList ''id''),
                           (''name'', js_get selectedList ''name'')]),
                    (''items'', JArr enrichedItems)])
                200),
           w5))))))))))"

definition shopping_list_get :: "env \<Rightarrow> string option \<Rightarrow> world \<Rightarrow> outcome \<times> world" where
  "shopping_list_get e requestedListId w =
     (case getCachedShoppingLists e w of
        (Inl x, w1) \<Rightarrow> (Responded (text_response ''Failed to fetch shopping lists'' 502), w1)
      | (Inr slists, w1) \<Rightarrow>
          (case select_list_get (elems slists) requestedListId of
             None \<Rightarrow> (Uncaught TypeError, w1)
           | Some (Inl resp) \<Rightarrow> (Responded resp, w1)
           | Some (Inr selectedList) \<Rightarrow> shopping_list_view e selectedList w1))"

section \<open>Creating a product (lines 435-584)\<close>

text \<open>
  The gates before the quantity units (lines 436-485): the body, the name, the
  duplicate check, the location, and the fetch of the quantity units. \<open>Inl\<close> is the
  outcome of a gate that rejects, \<open>Inr\<close> the location and the quantity units. Only
  the fetch of the products is inside a \<^verbatim>\<open>try\<close>: an exception of the duplicate
  check, of the two other fetches or of the search for the location is not caught.
\<close>

definition create_gates :: "env \<Rightarrow> jv option \<Rightarrow> world \<Rightarrow> (outcome + jv \<times> jv) \<times> world" where
  "create_gates e rb w =
     (let body = safeJson rb in
      if \<not> truthy body then (Inl (Responded (jsonError 400 (error_code ''invalid_json''))), w)
      else
        let name = js_get body ''name'';
            default_location = js_get body ''default_location''
        in
        if \<not> truthy name \<or> \<not> is_string name
        then (Inl (Responded (jsonError 400 (error_code ''invalid_request''))), w)
        else
     (case getCachedProducts e w of
        (Inl x, w1) \<Rightarrow> (Inl (Responded (text_response ''Failed to fetch products'' 502)), w1)
      | (Inr products, w1) \<Rightarrow>
     (case normalize_str name of
        None \<Rightarrow> (Inl (Uncaught TypeError), w1)
      | Some normalizedName \<Rightarrow>
     (case js_some_opt
             (\<lambda>p. map_option (\<lambda>n. n = normalizedName) (normalize_str (js_get p ''name'')))
             (elems products) of
        None \<Rightarrow> (Inl (Uncaught TypeError), w1)
      | Some duplicate \<Rightarrow>
          if duplicate
          then (Inl (Responded
                       (jsonError 400
                          (JObj [(''error'', JStr ''product_exists''), (''product'', name)]))),
                w1)
          else
            let locationName = js_or default_location (DEFAULT_LOCATION_NAME e) in
     (case cacheGetJson w1 (cache_key e ''locations'') (GET ''/api/objects/locations'')
             (CACHE_DURATION e) of
        (Inl x, w2) \<Rightarrow> (Inl (Uncaught x), w2)
      | (Inr locations, w2) \<Rightarrow>
          if \<not> truthy locations
          then (Inl (Responded (text_response ''Failed to fetch locations'' 502)), w2)
          else
     (case js_find_opt (\<lambda>l. normalize_eq (js_get l ''name'') locationName) (elems locations) of
        None \<Rightarrow> (Inl (Uncaught TypeError), w2)
      | Some location \<Rightarrow>
          if \<not> truthy location
          then (Inl (Responded
                       (jsonError 400
                          (JObj [(''error'', JStr ''invalid_location''),
                                 (''location'', locationName)]))),
                w2)
          else
     (case cacheGetJson w2 (cache_key e ''quantity-units'')
             (GET ''/api/objects/quantity_units'') (CACHE_DURATION e) of
        (Inl x, w3) \<Rightarrow> (Inl (Uncaught x), w3)
      | (Inr units, w3) \<Rightarrow>
          if \<not> truthy units
          then (Inl (Responded (text_response ''Failed to fetch quantity units'' 502)), w3)
          else (Inr (location, units), w3))))))))"

text \<open>
  \<^verbatim>\<open>resolveUnit\<close> and \<^verbatim>\<open>resolvedUnits\<close> (lines 487-494): the unit found for a
  name (\<^verbatim>\<open>undefined\<close> when there is none), and the four units in the order of the
  object literal; \<open>None\<close> when \<^verbatim>\<open>normalize\<close> throws.
\<close>

definition resolveUnit :: "jv \<Rightarrow> jv \<Rightarrow> jv option" where
  "resolveUnit units unitName =
     js_find_opt (\<lambda>u. normalize_eq (js_get u ''name'') unitName) (elems units)"

definition unit_name :: "env \<Rightarrow> jv \<Rightarrow> string \<Rightarrow> jv" where
  "unit_name e quantity_units role =
     js_or (js_get quantity_units role) (js_get (DEFAULT_UNITS e) role)"

definition resolvedUnits :: "env \<Rightarrow> jv \<Rightarrow> jv \<Rightarrow> (string \<times> jv) list option" where
  "resolvedUnits e quantity_units units =
     (case resolveUnit units (unit_name e quantity_units ''stock'') of
        None \<Rightarrow> None
      | Some stock \<Rightarrow>
     (case resolveUnit units (unit_name e quantity_units ''purchase'') of
        None \<Rightarrow> None
      | Some purchase \<Rightarrow>
     (case resolveUnit units (unit_name e quantity_units ''consume'') of
        None \<Rightarrow> None
      | Some consume \<Rightarrow>
     (case resolveUnit units (unit_name e quantity_units ''price'') of
        None \<Rightarrow> None
      | Some price \<Rightarrow>
          Some [(''stock'', stock), (''purchase'', purchase), (''consume'', consume),
                (''price'', price)]))))"

text \<open>
  The loop over \<^verbatim>\<open>Object.entries(resolvedUnits)\<close> (lines 496-498): the key of the
  first entry without a unit.
\<close>

fun first_unresolved :: "(string \<times> jv) list \<Rightarrow> string option" where
  "first_unresolved [] = None"
| "first_unresolved ((key, unit) # rest) =
     (if \<not> truthy unit then Some key else first_unresolved rest)"

text \<open>The optional product group (lines 501-510); nothing here is inside a \<^verbatim>\<open>try\<close>.\<close>

definition resolve_group :: "jv \<Rightarrow> world \<Rightarrow> (outcome + jv) \<times> world" where
  "resolve_group product_group w =
     (if truthy product_group then
        (case fetch (GET ''/api/objects/product_groups'') w of
           (pgResp, w1) \<Rightarrow>
             if \<not> ok pgResp
             then (Inl (Responded (text_response ''Failed to fetch product groups'' 502)), w1)
             else
               (case parse_json (payload pgResp) of
                  Inl x \<Rightarrow> (Inl (Uncaught x), w1)
                | Inr groups \<Rightarrow>
                    (case js_find_opt (\<lambda>g. normalize_eq (js_get g ''name'') product_group)
                            (elems groups) of
                       None \<Rightarrow> (Inl (Uncaught TypeError), w1)
                     | Some match \<Rightarrow>
                         if \<not> truthy match
                         then (Inl (Responded
                                      (jsonError 400
                                         (JObj [(''error'', JStr ''invalid_product_group''),
                                                (''product_group'', product_group)]))),
                               w1)
                         else (Inr (js_get match ''id''), w1))))
      else (Inr JNull, w))"

text \<open>
  The upload of the image (lines 533-567), best effort: whether the image was
  attached, and the message of the error that was caught. The form that carries the
  image is not a JSON body. The conversion of the URL of the image, or of the id of the
  product, to a string throws inside the \<^verbatim>\<open>try\<close>, with the message of the engine.
\<close>

definition UPLOAD :: "string \<Rightarrow> call" where
  "UPLOAD url = \<lparr> c_method = ''POST'', c_url = url, c_body = JUndef \<rparr>"

definition cannot_convert :: string where
  "cannot_convert = ''Cannot convert object to primitive value''"

definition attach_image :: "jv \<Rightarrow> jv \<Rightarrow> world \<Rightarrow> (bool \<times> jv) \<times> world" where
  "attach_image image_url productId w =
     (if truthy image_url then
        (case js_string image_url of
           None \<Rightarrow> ((False, JStr cannot_convert), w)
         | Some imageUrl \<Rightarrow>
        (case fetch (GET imageUrl) w of
           (imgResp, w1) \<Rightarrow>
             if \<not> ok imgResp
             then ((False, JStr (''image fetch failed ('' @ nat_dec (f_status imgResp) @ '')'')), w1)
             else if content_length imgResp > 5000000
             then ((False, JStr ''image too large''), w1)
             else if \<not> startsWith (content_type imgResp) ''image/''
             then ((False, JStr (''invalid content-type ('' @ content_type imgResp @ '')'')), w1)
             else
               (case js_string productId of
                  None \<Rightarrow> ((False, JStr cannot_convert), w1)
                | Some pid \<Rightarrow>
               (case fetch (UPLOAD (''/api/files/productpictures/'' @ pid)) w1 of
                  (uploadResp, w2) \<Rightarrow>
                    if \<not> ok uploadResp
                    then ((False,
                           JStr (''upload failed ('' @ nat_dec (f_status uploadResp) @ ''): ''
                                 @ raw uploadResp)), w2)
                    else ((True, JNull), w2)))))
      else ((False, JNull), w))"

text \<open>
  From the product group to the response (lines 500-583): the creation write, the
  image, the invalidation of the cached products.
\<close>

definition create_write :: "env \<Rightarrow> jv \<Rightarrow> jv \<Rightarrow> jv \<Rightarrow> world \<Rightarrow> outcome \<times> world" where
  "create_write e body location units w =
     (let name = js_get body ''name'' in
      case resolve_group (js_get body ''product_group'') w of
        (Inl out, w1) \<Rightarrow> (out, w1)
      | (Inr product_group_id, w1) \<Rightarrow>
          (case fetch
                  (POST ''/api/objects/products''
                     (JObj [(''name'', name),
                            (''description'', js_get body ''description''),
                            (''location_id'', js_get location ''id''),
                            (''qu_id_stock'', js_get (js_get units ''stock'') ''id''),
                            (''qu_id_purchase'', js_get (js_get units ''purchase'') ''id''),
                            (''qu_id_consume'', js_get (js_get units ''consume'') ''id''),
                            (''qu_id_price'', js_get (js_get units ''price'') ''id''),
                            (''product_group_id'', product_group_id)]))
                  w1 of
             (createResp, w2) \<Rightarrow>
               if \<not> ok createResp
               then (Responded (text_response ''Failed to create product'' 502), w2)
               else
                 (case parse_json (payload createResp) of
                    Inl x \<Rightarrow> (Uncaught x, w2)
                  | Inr created \<Rightarrow>
                 let productId = js_get created ''id'' in
                 (case attach_image (js_get body ''image_url'') productId w2 of
                    ((imageAttached, imageError), w3) \<Rightarrow>
                      (Responded
                         (json
                            (JObj
                               [(''status'', JStr ''created''),
                                (''product'', JObj [(''id'', productId), (''name'', name)]),
                                (''location'', js_get location ''name''),
                                (''quantity_units'',
                                 JObj [(''stock'', js_get (js_get units ''stock'') ''name''),
                                       (''purchase'', js_get (js_get units ''purchase'') ''name''),
                                       (''consume'', js_get (js_get units ''consume'') ''name''),
                                       (''price'', js_get (js_get units ''price'') ''name'')]),
                                (''image'',
                                 JObj [(''attached'', JBool imageAttached),
                                       (''error'', imageError)])])
                            200),
                       cache_delete w3 (cache_key e ''products''))))))"

text \<open>
  The member \<^verbatim>\<open>quantity_units\<close> of the body, as the destructuring with the default
  \<^verbatim>\<open>quantity_units = {}\<close> reads it: the default stands in for an absent member
  only.
\<close>

definition quantity_units_of :: "jv \<Rightarrow> jv" where
  "quantity_units_of body =
     (if is_undef (js_get body ''quantity_units'') then JObj []
      else js_get body ''quantity_units'')"

text \<open>
  The handler. \<^verbatim>\<open>quantity_units.stock\<close> of a \<^verbatim>\<open>null\<close> member throws, and so
  does \<^verbatim>\<open>normalize\<close> of a name that has no string.
\<close>

definition products_create :: "env \<Rightarrow> jv option \<Rightarrow> world \<Rightarrow> outcome \<times> world" where
  "products_create e rb w =
     (case create_gates e rb w of
        (Inl out, w3) \<Rightarrow> (out, w3)
      | (Inr (location, units), w3) \<Rightarrow>
          let body = safeJson rb;
              quantity_units = quantity_units_of body
          in
          if nullish quantity_units then (Uncaught TypeError, w3)
          else
            (case resolvedUnits e quantity_units units of
               None \<Rightarrow> (Uncaught TypeError, w3)
             | Some resolved_units \<Rightarrow>
                 (case first_unresolved resolved_units of
                    Some key \<Rightarrow>
                      (Responded
                         (jsonError 400
                            (JObj [(''error'', JStr ''invalid_quantity_unit''),
                                   (''unit'', JStr key)])),
                       w3)
                  | None \<Rightarrow> create_write e body location (JObj resolved_units) w3)))"

section \<open>Adding stock in bulk (lines 650-743)\<close>

text \<open>
  An object literal with a spread, \<^verbatim>\<open>{ ...base, ...extra }\<close>: a member of \<open>extra\<close>
  replaces the member of the same name, or is added after the others.
\<close>

fun obj_set :: "string \<Rightarrow> jv \<Rightarrow> (string \<times> jv) list \<Rightarrow> (string \<times> jv) list" where
  "obj_set k v [] = [(k, v)]"
| "obj_set k v ((k', v') # kvs) = (if k' = k then (k, v) # kvs else (k', v') # obj_set k v kvs)"

fun spread :: "(string \<times> jv) list \<Rightarrow> jv \<Rightarrow> jv" where
  "spread base (JObj extra) = JObj (fold (\<lambda>(k, v). obj_set k v) extra base)"
| "spread base JUndef = JObj base"
| "spread base JNull = JObj base"
| "spread base (JBool b) = JObj base"
| "spread base (JNum n) = JObj base"
| "spread base (JStr s) = JObj base"
| "spread base (JArr xs) = JObj base"

definition line_error :: "jv \<Rightarrow> string \<Rightarrow> jv" where
  "line_error line c = JObj [(''line'', line), (''status'', JStr ''error''), (''error'', JStr c)]"

text \<open>
  The body of the loop \<^verbatim>\<open>for (const item of safeItems)\<close> (lines 672-731), for
  one item: the result it pushes. Destructuring an item that is \<^verbatim>\<open>null\<close> throws a
  TypeError, which nothing catches, and neither is an exception of
  \<^verbatim>\<open>resolveProductFuzzy\<close> caught. The fetch of the details is inside a \<^verbatim>\<open>try\<close>,
  with the conversion of the id in its URL and the parsing of its body. The price is
  recorded by a call that nobody awaits.
\<close>

definition bulk_line :: "jv list \<Rightarrow> jv \<Rightarrow> world \<Rightarrow> (exn + jv) \<times> world" where
  "bulk_line products item w =
     (if nullish item then (Inl TypeError, w)
      else
        let line = js_get item ''line'';
            product = js_get item ''product'';
            amount = js_get item ''amount'';
            best_before_date = js_get item ''best_before_date'';
            price = js_get item ''price''
        in
        if \<not> truthy product \<or> \<not> is_number amount
        then (Inr (line_error line ''invalid_line''), w)
        else
     (case resolveProductFuzzy products product of
        None \<Rightarrow> (Inl TypeError, w)
      | Some (ResError err) \<Rightarrow>
          (Inr (spread [(''line'', line), (''status'', JStr ''error'')] err), w)
      | Some (ResProduct m) \<Rightarrow>
     (case js_string (match_id m) of
        None \<Rightarrow> (Inr (line_error line ''product_details_unavailable''), w)
      | Some productId \<Rightarrow>
     (case fetch (GET (''/api/stock/products/'' @ productId)) w of
        (detailsResp, w1) \<Rightarrow>
          if \<not> ok detailsResp
          then (Inr (line_error line ''product_details_unavailable''), w1)
          else
     (case parse_json (payload detailsResp) of
        Inl x \<Rightarrow> (Inr (line_error line ''product_details_unavailable''), w1)
      | Inr details \<Rightarrow>
          let quId = coalesce (js_opt_get (js_get details ''product'') ''qu_id_stock'')
                       (js_get details ''qu_id_stock'')
          in
     (case fetch
             (POST (''/api/objects/products/'' @ productId @ ''/add'')
                (JObj [(''amount'', amount),
                       (''best_before_date'', best_before_date),
                       (''qu_id'', quId)]))
             w1 of
        (addResp, w2) \<Rightarrow>
          if \<not> ok addResp
          then (Inr (line_error line ''add_failed''), w2)
          else
            let w3 =
                  (if is_number price
                   then snd (fetch
                               (POST ''/api/objects/product_prices''
                                  (JObj [(''product_id'', match_id m),
                                         (''price'', price),
                                         (''store_id'',
                                          coalesce (js_get details ''last_shopping_location_id'')
                                            JNull)]))
                               w2)
                   else w2)
            in
            (Inr
               (JObj
                  [(''line'', line),
                   (''status'', JStr ''added''),
                   (''product'', JObj [(''id'', match_id m), (''name'', match_name m)]),
                   (''interpreted_as'',
                    JObj [(''amount'', amount),
                          (''unit'',
                           coalesce (js_opt_get (js_get details ''quantity_unit_stock'') ''name'')
                             (JStr ''stock unit'')),
                          (''price'', if is_number price then price else JNull)])]),
             w3)))))))"

text \<open>
  The loop (lines 669-732): the items in their order, each pushing its result, until
  one throws.
\<close>

fun bulk_loop :: "jv list \<Rightarrow> jv list \<Rightarrow> jv list \<Rightarrow> world \<Rightarrow> (exn + jv list) \<times> world" where
  "bulk_loop products [] results w = (Inr results, w)"
| "bulk_loop products (item # rest) results w =
     (case bulk_line products item w of
        (Inl x, w1) \<Rightarrow> (Inl x, w1)
      | (Inr r, w1) \<Rightarrow> bulk_loop products rest (results @ [r]) w1)"

definition has_status :: "string \<Rightarrow> jv \<Rightarrow> bool" where
  "has_status st r = strict_eq (js_get r ''status'') (JStr st)"

definition bulk_report :: "jv list \<Rightarrow> jv list \<Rightarrow> jv" where
  "bulk_report safeItems results =
     JObj [(''status'', JStr ''completed''),
           (''summary'',
            JObj [(''total'', JNum (int (length safeItems))),
                  (''added'', JNum (int (length (filter (has_status ''added'') results)))),
                  (''errors'', JNum (int (length (filter (has_status ''error'') results))))]),
           (''results'', JArr results)]"

definition MAX_ITEMS :: nat where
  "MAX_ITEMS = 25"

definition stock_add_bulk :: "env \<Rightarrow> jv option \<Rightarrow> world \<Rightarrow> outcome \<times> world" where
  "stock_add_bulk e rb w =
     (let body = safeJson rb in
      if \<not> truthy body then (Responded (jsonError 400 (error_code ''invalid_json'')), w)
      else
        let items = js_get body ''items'' in
        if \<not> is_array items \<or> length (elems items) = 0
        then (Responded (jsonError 400 (error_code ''invalid_request'')), w)
        else
          let safeItems = take MAX_ITEMS (elems items) in
          (case getCachedProducts e w of
             (Inl x, w1) \<Rightarrow> (Responded (text_response ''Failed to fetch products'' 502), w1)
           | (Inr products, w1) \<Rightarrow>
               (case bulk_loop (elems products) safeItems [] w1 of
                  (Inl x, w2) \<Rightarrow> (Uncaught x, w2)
                | (Inr results, w2) \<Rightarrow>
                    (Responded (json (bulk_report safeItems results) 200), w2))))"

section \<open>Observations\<close>

text \<open>The JSON of a response, the calls that write, and the roles of a quantity unit.\<close>

definition body_json :: "response \<Rightarrow> jv" where
  "body_json r = (case r_body r of JsonBody v \<Rightarrow> v | TextBody t \<Rightarrow> JUndef)"

definition writes :: "world \<Rightarrow> call list" where
  "writes w = filter (\<lambda>c. c_method c = ''POST'') (calls w)"

definition unit_roles :: "string list" where
  "unit_roles = [''stock'', ''purchase'', ''consume'', ''price'']"

definition invalid_quantity_unit :: "string \<Rightarrow> response" where
  "invalid_quantity_unit role =
     jsonError 400 (JObj [(''error'', JStr ''invalid_quantity_unit''), (''unit'', JStr role)])"

subsection \<open>The resolution of a product, as the specification words it\<close>

text \<open>
  The specification's score of a normalized candidate against a normalized query: an
  exact match 100, a candidate that starts with the query 60, one that contains it 30,
  any other 0. \<open>prefix\<close> and \<open>sublist\<close> are the library's.
\<close>

definition spec_score :: "string \<Rightarrow> string \<Rightarrow> nat" where
  "spec_score candidateNormalized queryNormalized =
     (if candidateNormalized = queryNormalized then 100
      else if prefix queryNormalized candidateNormalized then 60
      else if sublist queryNormalized candidateNormalized then 30
      else 0)"

text \<open>
  A product of the catalogue as a candidate: its id, its name, and the score of its
  normalized name. The name of a product is a string, or there is none; a product
  without a name (absent, \<^verbatim>\<open>null\<close>, empty) scores 0.
\<close>

definition spec_candidate :: "string \<Rightarrow> jv \<Rightarrow> pmatch" where
  "spec_candidate queryNormalized p =
     \<lparr> match_id = js_get p ''id'',
       match_name = js_get p ''name'',
       match_score =
         (case js_get p ''name'' of
            JStr n \<Rightarrow> if n = [] then 0 else spec_score (normalize_text n) queryNormalized
          | _ \<Rightarrow> 0) \<rparr>"

text \<open>
  The candidates that are kept: those with a positive score, sorted by descending score
  with the library's stable sort, the first five of them.
\<close>

definition spec_kept :: "jv list \<Rightarrow> string \<Rightarrow> pmatch list" where
  "spec_kept products queryNormalized =
     take 5
       (sort_key (\<lambda>m. - int (match_score m))
          (filter (\<lambda>m. 0 < match_score m) (map (spec_candidate queryNormalized) products)))"

text \<open>A product of the catalogue: an entry that is there, with a name that is a string or none.\<close>

definition is_product :: "jv \<Rightarrow> bool" where
  "is_product p =
     (\<not> nullish p \<and> (nullish (js_get p ''name'') \<or> is_string (js_get p ''name'')))"

section \<open>Example data\<close>

definition milk_products :: "jv list" where
  "milk_products =
     [JObj [(''id'', JNum 1), (''name'', JStr ''Milk'')],
      JObj [(''id'', JNum 2), (''name'', JStr ''Milk Substitute'')]]"

definition apple_products :: "jv list" where
  "apple_products =
     [JObj [(''id'', JNum 3), (''name'', JStr ''Apple Juice'')],
      JObj [(''id'', JNum 4), (''name'', JStr ''Apple Sauce'')]]"

definition env0 :: env where
  "env0 = \<lparr> ENV_CACHE_VERSION = [], ENV_CACHE_DURATION = None,
            ENV_DEFAULT_LOCATION_NAME = [], ENV_DEFAULT_STOCK_UNIT = [],
            ENV_DEFAULT_PURCHASE_UNIT = [], ENV_DEFAULT_CONSUME_UNIT = [],
            ENV_DEFAULT_PRICE_UNIT = [] \<rparr>"

definition json_ok :: "jv \<Rightarrow> fresp" where
  "json_ok v = \<lparr> f_status = 200, payload = JsonText v, raw = [], content_length = 0,
                 content_type = ''application/json'' \<rparr>"

definition unavailable :: fresp where
  "unavailable = \<lparr> f_status = 503, payload = OtherText ''Service Unavailable'',
                    raw = ''Service Unavailable'', content_length = 0,
                    content_type = ''text/plain'' \<rparr>"

text \<open>A sign-in page, served with status 200 in the place of every document.\<close>

definition sign_in_page :: fresp where
  "sign_in_page = \<lparr> f_status = 200, payload = OtherText ''<html>Sign in</html>'',
                     raw = ''<html>Sign in</html>'', content_length = 0,
                     content_type = ''text/html'' \<rparr>"

definition grocy_signed_out :: "call \<Rightarrow> fresp" where
  "grocy_signed_out c = sign_in_page"

text \<open>A backend that is down, and one that serves a small household.\<close>

definition grocy_down :: "call \<Rightarrow> fresp" where
  "grocy_down c = unavailable"

definition weekly_items :: "jv list" where
  "weekly_items =
     [JObj [(''product_id'', JNum 1), (''amount'', JNum 2)],
      JObj [(''product_id'', JNum 3), (''amount'', JNum 1)],
      JObj [(''product_id'', JNum 9), (''amount'', JNum 6), (''note'', JStr ''ripe'')]]"

definition milk_details :: jv where
  "milk_details =
     JObj [(''last_price'', JNum 2), (''last_shopping_location_id'', JNum 5),
           (''product'', JObj [(''qu_id_stock'', JNum 1), (''qu_id_price'', JNum 1)]),
           (''quantity_unit_stock'', JObj [(''name'', JStr ''Piece'')])]"

definition two_lists :: jv where
  "two_lists =
     JArr [JObj [(''id'', JNum 1), (''name'', JStr ''Weekly'')],
           JObj [(''id'', JNum 2), (''name'', JStr ''Party'')]]"

definition household_units :: jv where
  "household_units =
     JArr [JObj [(''id'', JNum 1), (''name'', JStr ''Piece'')],
           JObj [(''id'', JNum 2), (''name'', JStr ''Pack'')]]"

definition grocy :: "call \<Rightarrow> fresp" where
  "grocy c =
     (if c_method c = ''POST'' then json_ok (JObj [(''id'', JNum 10)])
      else if c_url c = ''/api/objects/products''
      then json_ok (JArr (milk_products @ apple_products))
      else if c_url c = ''/api/objects/shopping_lists''
      then json_ok two_lists
      else if c_url c = ''/api/objects/shopping_locations''
      then json_ok (JArr [JObj [(''id'', JNum 5), (''name'', JStr ''Corner Shop'')]])
      else if c_url c = ''/api/objects/locations''
      then json_ok (JArr [JObj [(''id'', JNum 1), (''name'', JStr ''Fridge'')]])
      else if c_url c = ''/api/objects/quantity_units''
      then json_ok household_units
      else if c_url c = ''/api/objects/shopping_list?list_id=1''
      then json_ok (JArr weekly_items)
      else if c_url c = ''/api/stock/products/1''
      then json_ok milk_details
      else unavailable)"

text \<open>The same household while the catalogue of products cannot be served.\<close>

definition grocy_no_products :: "call \<Rightarrow> fresp" where
  "grocy_no_products c = (if c_url c = ''/api/objects/products'' then unavailable else grocy c)"

definition fresh :: "(call \<Rightarrow> fresp) \<Rightarrow> world" where
  "fresh b = \<lparr> backend = b, now = 1000, cache = Map.empty, calls = [] \<rparr>"

text \<open>The world after the sign-in page was fetched for the products.\<close>

definition signed_out :: world where
  "signed_out =
     \<lparr> backend = grocy_signed_out, now = 1000,
       cache = [cache_key env0 ''products'' \<mapsto>
                  \<lparr> stored = OtherText ''<html>Sign in</html>'', max_age = 21600,
                    stored_at = 1000 \<rparr>],
       calls = [GET ''/api/objects/products''] \<rparr>"

definition warm :: world where
  "warm =
     \<lparr> backend = grocy_down, now = 1000,
       cache = [cache_key env0 ''products'' \<mapsto>
                  \<lparr> stored = JsonText (JArr apple_products), max_age = 21600, stored_at = 0 \<rparr>],
       calls = [] \<rparr>"

text \<open>The worlds the examples end in, and the request bodies they start from.\<close>

definition stocked :: world where
  "stocked =
     \<lparr> backend = grocy, now = 1000,
       cache = [cache_key env0 ''products'' \<mapsto>
                  \<lparr> stored = JsonText (JArr (milk_products @ apple_products)), max_age = 21600,
                    stored_at = 1000 \<rparr>],
       calls = [GET ''/api/objects/products''] \<rparr>"

definition listed :: world where
  "listed =
     \<lparr> backend = grocy, now = 1000,
       cache = [cache_key env0 ''shopping_lists'' \<mapsto>
                  \<lparr> stored = JsonText two_lists, max_age = 21600, stored_at = 1000 \<rparr>],
       calls = [GET ''/api/objects/shopping_lists''] \<rparr>"

definition listed_without :: world where
  "listed_without = listed\<lparr> backend := grocy_no_products \<rparr>"

definition gated :: world where
  "gated =
     \<lparr> backend = grocy, now = 1000,
       cache = [cache_key env0 ''products'' \<mapsto>
                  \<lparr> stored = JsonText (JArr (milk_products @ apple_products)), max_age = 21600,
                    stored_at = 1000 \<rparr>,
                cache_key env0 ''locations'' \<mapsto>
                  \<lparr> stored = JsonText (JArr [JObj [(''id'', JNum 1), (''name'', JStr ''Fridge'')]]),
                    max_age = 21600, stored_at = 1000 \<rparr>,
                cache_key env0 ''quantity-units'' \<mapsto>
                  \<lparr> stored = JsonText household_units, max_age = 21600, stored_at = 1000 \<rparr>],
       calls = [GET ''/api/objects/products'', GET ''/api/objects/locations'',
                GET ''/api/objects/quantity_units''] \<rparr>"

definition add_milk :: jv where
  "add_milk = JObj [(''product'', JStr ''milk''), (''amount'', JNum 1)]"

definition add_to_weekly :: jv where
  "add_to_weekly =
     JObj [(''product'', JStr ''milk''), (''amount'', JNum 1), (''shopping_list_id'', JNum 1)]"


definition butter_body :: jv where
  "butter_body =
     JObj [(''name'', JStr ''Butter''),
           (''quantity_units'', JObj [(''purchase'', JStr ''Crate'')])]"

definition nameless_body :: jv where
  "nameless_body = JObj [(''quantity_units'', JObj [(''stock'', JStr ''Crate'')])]"

definition milk_again_body :: jv where
  "milk_again_body =
     JObj [(''name'', JStr ''Milk''),
           (''quantity_units'', JObj [(''stock'', JStr ''Crate'')])]"

definition thirty_items :: "jv list" where
  "thirty_items = replicate 30 (JObj [(''line'', JStr ''x'')])"

definition null_line_body :: jv where
  "null_line_body =
     JObj [(''items'',
            JArr [JObj [(''line'', JNum 1), (''product'', JStr ''Milk''), (''amount'', JNum 1)],
                  JNull,
                  JObj [(''line'', JNum 3), (''product'', JStr ''Apple Juice''),
                        (''amount'', JNum 2)]])]"

definition juice_item :: jv where
  "juice_item = JObj [(''product_id'', JNum 3), (''amount'', JNum 1)]"

definition weekly_purchases :: jv where
  "weekly_purchases = JObj [(''1'', last_purchase milk_details)]"

section \<open>Properties of the normalizer\<close>

lemma kept_lower: "kept_char c \<Longrightarrow> lower_char c = c"
  by (auto simp: kept_char_def lower_char_def is_space_def Let_def)

lemma set_trim: "set (trim s) \<subseteq> set s"
  unfolding trim_def by (metis set_dropWhileD set_rev subsetI)

lemma normalize_JStr: "normalize_str (JStr s) = Some (normalize_text s)"
  by (simp add: normalize_str_def js_or_def)

lemma normalize_chars: "\<forall>c\<in>set (normalize_text s). kept_char c"
  by (simp add: normalize_text_def)

lemma normalize_kept:
  assumes "\<forall>c\<in>set t. kept_char c"
  shows "normalize_text t = trim t"
proof -
  have 2: "toLowerCase t = t"
    unfolding toLowerCase_def using assms by (simp add: kept_lower map_idI)
  have 3: "filter kept_char (trim t) = trim t"
    using assms set_trim[of t] by (auto simp: filter_id_conv)
  show ?thesis unfolding normalize_text_def 2 3 ..
qed

lemma trim_fixed:
  assumes "t = [] \<or> (\<not> is_space (hd t) \<and> \<not> is_space (last t))"
  shows "trim t = t"
proof (cases "t = []")
  case True
  then show ?thesis by (simp add: trim_def)
next
  case False
  with assms have h: "\<not> is_space (hd t)" and l: "\<not> is_space (last t)" by auto
  have 1: "dropWhile is_space t = t"
    using h by (simp add: dropWhile_eq_self_iff)
  have 2: "dropWhile is_space (rev t) = rev t"
    using l False by (simp add: dropWhile_eq_self_iff hd_rev)
  show ?thesis by (simp add: trim_def 1 2)
qed

lemmas normalize_eval =
  normalize_str_def normalize_text_def normalize_eq_def js_or_def toLowerCase_def lower_char_def
  trim_def is_space_def kept_char_def char_of_def bit_Suc_0_iff

text \<open>
  C8, as the specification states it: \<open>normalize\<close> is idempotent. It is not. The
  worker trims before it strips, so the string \<^verbatim>\<open>"- a"\<close> normalizes to \<^verbatim>\<open>" a"\<close>,
  with a leading space, and \<^verbatim>\<open>" a"\<close> does not normalize to itself: the second
  application trims the space away.
\<close>

theorem normalize_not_idempotent:
  "normalize_str (JStr ''- a'') = Some '' a'' \<and>
   normalize_str (JStr '' a'') = Some ''a'' \<and>
   normalize_str (JStr '' a'') \<noteq> normalize_str (JStr ''- a'')"
  by (simp add: normalize_eval)

text \<open>
  C8, amended: every string \<open>s\<close> has a normalized form \<open>t\<close>, and applying
  \<open>normalize\<close> to \<open>t\<close> trims it and does nothing else; so \<open>normalize\<close> is idempotent
  on every string whose normalized form has no white space at either end.
\<close>

theorem normalize_twice:
  "\<exists>t. normalize_str (JStr s) = Some t \<and>
        normalize_str (JStr t) = Some (trim t) \<and>
        (t = [] \<or> (\<not> is_space (hd t) \<and> \<not> is_space (last t)) \<longrightarrow>
           normalize_str (JStr t) = Some t)"
proof -
  let ?t = "normalize_text s"
  have twice: "normalize_text ?t = trim ?t"
    by (rule normalize_kept[OF normalize_chars])
  have fixed: "?t = [] \<or> (\<not> is_space (hd ?t) \<and> \<not> is_space (last ?t)) \<longrightarrow>
                 normalize_text ?t = ?t"
    using twice trim_fixed[of ?t] by presburger
  show ?thesis
    unfolding normalize_JStr using twice fixed by blast
qed

theorem normalize_twice_witness:
  "normalize_str (JStr ''Milk (2%)'') = Some ''milk 2'' \<and>
   normalize_str (JStr ''milk 2'') = Some ''milk 2''"
proof -
  have n: "normalize_str (JStr ''Milk (2%)'') = Some ''milk 2''"
    by (simp add: normalize_eval)
  have ends: "\<not> is_space (hd ''milk 2'') \<and> \<not> is_space (last ''milk 2'')"
    by (simp add: is_space_def)
  from normalize_twice[of "''Milk (2%)''"] obtain t where
    t: "normalize_str (JStr ''Milk (2%)'') = Some t"
    "t = [] \<or> (\<not> is_space (hd t) \<and> \<not> is_space (last t)) \<longrightarrow> normalize_str (JStr t) = Some t"
    by blast
  from t(1) n have "t = ''milk 2''" by simp
  with t(2) ends have "normalize_str (JStr ''milk 2'') = Some ''milk 2''" by blast
  with n show ?thesis by blast
qed

section \<open>Properties of the fuzzy resolution\<close>

lemma filter_insert_by:
  "filter (\<lambda>m. match_score m = s) (insert_by by_score_desc x ys) =
     (if match_score x = s then x # filter (\<lambda>m. match_score m = s) ys
      else filter (\<lambda>m. match_score m = s) ys)"
  by (induction ys) (auto simp: by_score_desc_def)

lemma filter_sort_by:
  "filter (\<lambda>m. match_score m = s) (sort_by by_score_desc xs) = filter (\<lambda>m. match_score m = s) xs"
  by (induction xs) (simp_all add: sort_by_def filter_insert_by)

lemma set_insert_by: "set (insert_by cmp x ys) = insert x (set ys)"
  by (induction ys) auto

lemma set_sort_by: "set (sort_by cmp xs) = set xs"
  by (induction xs) (simp_all add: sort_by_def set_insert_by)

lemma sorted_insert_by:
  "sorted_wrt (\<lambda>a b. match_score b \<le> match_score a) ys \<Longrightarrow>
   sorted_wrt (\<lambda>a b. match_score b \<le> match_score a) (insert_by by_score_desc x ys)"
  by (induction ys) (auto simp: by_score_desc_def set_insert_by)

lemma sorted_sort_by:
  "sorted_wrt (\<lambda>a b. match_score b \<le> match_score a) (sort_by by_score_desc xs)"
  by (induction xs) (simp_all add: sort_by_def sorted_insert_by)

text \<open>A list sorted by descending score, with scores 100, 60 and 30 only, is three bands.\<close>

lemma three_bands:
  "sorted_wrt (\<lambda>a b. match_score b \<le> match_score a) xs \<Longrightarrow>
   \<forall>m\<in>set xs. match_score m = 100 \<or> match_score m = 60 \<or> match_score m = 30 \<Longrightarrow>
   xs = filter (\<lambda>m. match_score m = 100) xs @ filter (\<lambda>m. match_score m = 60) xs
        @ filter (\<lambda>m. match_score m = 30) xs"
proof (induction xs)
  case Nil
  then show ?case by simp
next
  case (Cons x xs)
  then have IH: "xs = filter (\<lambda>m. match_score m = 100) xs @ filter (\<lambda>m. match_score m = 60) xs
        @ filter (\<lambda>m. match_score m = 30) xs"
    by simp
  from Cons.prems have le: "\<forall>m\<in>set xs. match_score m \<le> match_score x" by simp
  consider "match_score x = 100" | "match_score x = 60" | "match_score x = 30"
    using Cons.prems(2) by auto
  then show ?case
  proof cases
    case 1
    then show ?thesis using IH by simp
  next
    case 2
    then have "filter (\<lambda>m. match_score m = 100) xs = []"
      using le by (auto simp: filter_empty_conv)
    then show ?thesis using IH 2 by simp
  next
    case 3
    then have "filter (\<lambda>m. match_score m = 100) xs = []" "filter (\<lambda>m. match_score m = 60) xs = []"
      using le by (auto simp: filter_empty_conv)
    then show ?thesis using IH 3 by simp
  qed
qed

text \<open>The sort of the worker is the library's stable sort by descending score.\<close>

lemma insert_by_insort:
  "insert_by by_score_desc x ys = insort_key (\<lambda>m. - int (match_score m)) x ys"
  by (induction ys) (auto simp: by_score_desc_def)

lemma sort_by_sort_key:
  "sort_by by_score_desc xs = sort_key (\<lambda>m. - int (match_score m)) xs"
  by (induction xs) (simp_all add: sort_by_def insert_by_insort)

text \<open>The score of the worker is the score of the specification.\<close>

lemma startsWith_prefix: "startsWith s q \<longleftrightarrow> prefix q s"
  by (induction s q rule: startsWith.induct) auto

lemma js_includes_sublist: "js_includes s q \<longleftrightarrow> sublist q s"
  by (induction s) (simp_all add: startsWith_prefix sublist_Cons_right)

lemma scoreProduct_spec: "scoreProduct n q = spec_score n q"
  by (simp add: scoreProduct_def spec_score_def startsWith_prefix js_includes_sublist)

lemma scored_spec: "is_product p \<Longrightarrow> scored q p = Some (spec_candidate q p)"
  by (cases "js_get p ''name''")
     (auto simp: is_product_def scored_def spec_candidate_def normalize_JStr scoreProduct_spec)

lemma those_map_Some:
  "\<forall>x\<in>set xs. f x = Some (g x) \<Longrightarrow> those (map f xs) = Some (map g xs)"
  by (induction xs) simp_all

lemma spec_candidate_range:
  "match_score (spec_candidate q p) = 0 \<or> match_score (spec_candidate q p) = 30 \<or>
   match_score (spec_candidate q p) = 60 \<or> match_score (spec_candidate q p) = 100"
  by (cases "js_get p ''name''") (simp_all add: spec_candidate_def spec_score_def)

lemma filter_positive:
  "0 < k \<Longrightarrow>
   filter (\<lambda>m. match_score m = k) (filter (\<lambda>p. match_score p > 0) xs) =
   filter (\<lambda>m. match_score m = k) xs"
  by (induction xs) auto

text \<open>
  The ranking, said without the sort: the exact matches in the order of the catalogue,
  then the candidates that start with the query, then those that contain it.
  Candidates that score 0 are in none of the three.
\<close>

lemma sorted_bands:
  assumes "\<forall>m\<in>set cs. match_score m = 0 \<or> match_score m = 30 \<or> match_score m = 60 \<or>
             match_score m = 100"
  shows "sort_by by_score_desc (filter (\<lambda>p. match_score p > 0) cs) =
           filter (\<lambda>m. match_score m = 100) cs @ filter (\<lambda>m. match_score m = 60) cs
           @ filter (\<lambda>m. match_score m = 30) cs"
proof -
  let ?P = "filter (\<lambda>p. match_score p > 0) cs"
  let ?xs = "sort_by by_score_desc ?P"
  have rng: "\<forall>m\<in>set ?xs. match_score m = 100 \<or> match_score m = 60 \<or> match_score m = 30"
    using assms by (auto simp: set_sort_by)
  have "?xs = filter (\<lambda>m. match_score m = 100) ?xs @ filter (\<lambda>m. match_score m = 60) ?xs
        @ filter (\<lambda>m. match_score m = 30) ?xs"
    by (rule three_bands[OF sorted_sort_by rng])
  also have "\<dots> = filter (\<lambda>m. match_score m = 100) ?P @ filter (\<lambda>m. match_score m = 60) ?P
        @ filter (\<lambda>m. match_score m = 30) ?P"
    by (simp only: filter_sort_by)
  also have "\<dots> = filter (\<lambda>m. match_score m = 100) cs @ filter (\<lambda>m. match_score m = 60) cs
        @ filter (\<lambda>m. match_score m = 30) cs"
    by (simp only: filter_positive[of 100] filter_positive[of 60] filter_positive[of 30]
        zero_less_numeral)
  finally show ?thesis .
qed

lemma fuzzy_matches_spec:
  assumes "\<forall>p\<in>set products. is_product p"
  shows "fuzzy_matches products (JStr s) = Some (spec_kept products (normalize_text s))"
proof -
  have "those (map (scored (normalize_text s)) products) =
          Some (map (spec_candidate (normalize_text s)) products)"
    using assms by (intro those_map_Some) (simp add: scored_spec)
  then show ?thesis
    by (simp add: fuzzy_matches_def normalize_JStr ranked_def spec_kept_def sort_by_sort_key)
qed

lemma spec_kept_bands:
  "spec_kept products q =
     take 5
       (filter (\<lambda>m. match_score m = 100) (map (spec_candidate q) products)
        @ filter (\<lambda>m. match_score m = 60) (map (spec_candidate q) products)
        @ filter (\<lambda>m. match_score m = 30) (map (spec_candidate q) products))"
proof -
  have "\<forall>m\<in>set (map (spec_candidate q) products).
          match_score m = 0 \<or> match_score m = 30 \<or> match_score m = 60 \<or> match_score m = 100"
    using spec_candidate_range by auto
  from sorted_bands[OF this] show ?thesis
    by (simp add: spec_kept_def sort_by_sort_key)
qed

lemma resolve_decision:
  assumes "fuzzy_matches products productName = Some kept"
  shows "(kept = [] \<longrightarrow>
            resolveProductFuzzy products productName =
              Some (ResError (JObj [(''error'', JStr ''product_not_found''),
                                    (''product'', productName)])))
   \<and> (kept \<noteq> [] \<and> match_score (hd kept) = 100 \<longrightarrow>
        resolveProductFuzzy products productName = Some (ResProduct (hd kept)))
   \<and> (2 \<le> length kept \<and> match_score (hd kept) < 100 \<longrightarrow>
        resolveProductFuzzy products productName =
          Some (ResError
                  (JObj [(''error'', JStr ''multiple_products''),
                         (''products'',
                          JArr (map (\<lambda>m. JObj [(''id'', match_id m), (''name'', match_name m)])
                                  kept))])))
   \<and> (length kept = 1 \<and> match_score (hd kept) < 100 \<longrightarrow>
        resolveProductFuzzy products productName = Some (ResProduct (hd kept)))"
  using assms by (cases kept) (auto simp: resolveProductFuzzy_def)

text \<open>
  Where the resolution throws: on a catalogue with an entry that is \<^verbatim>\<open>null\<close>, and
  on a query that has no string.
\<close>

lemma resolveProductFuzzy_throws:
  "resolveProductFuzzy (JNull # products) (JStr s) = None"
  "resolveProductFuzzy products (JObj [(''toString'', JNum 1)]) = None"
  by (simp_all add: resolveProductFuzzy_def fuzzy_matches_def ranked_def scored_def
      normalize_JStr normalize_str_def js_or_def)

lemmas resolve_eval =
  fuzzy_matches_def ranked_def sort_by_def by_score_desc_def scored_def scoreProduct_def
  normalize_eval

text \<open>
  C1: let the catalogue be a list of products (no entry is \<^verbatim>\<open>null\<close>, and a name is
  a string where there is one) and the query a string \<open>s\<close>. The resolution returns, and
  the candidates it keeps are those of the specification: each product with its id, its
  name and the score of its normalized name against the normalized query (100 for an
  exact match, 60 for a name that starts with the query, 30 for one that contains it),
  without those that score 0, sorted by descending score keeping ties in the order of
  the catalogue, cut after the fifth. Said without the sort, they are the first five
  of: the exact matches in the order of the catalogue, then the names that start with
  the query, then those that contain it. The outcome is decided by the kept candidates
  alone: none kept, the error \<^verbatim>\<open>product_not_found\<close> with the query; a top score of
  100, the top candidate whatever else is kept; two or more kept and a top score below
  100, the error \<^verbatim>\<open>multiple_products\<close> listing the id and the name of every kept
  candidate, in their order; exactly one kept, with a score below 100, that candidate.
\<close>

theorem resolveProductFuzzy_outcomes:
  assumes "\<forall>p\<in>set products. is_product p"
  shows "\<exists>kept.
           fuzzy_matches products (JStr s) = Some kept
         \<and> kept = spec_kept products (normalize_text s)
         \<and> kept =
             take 5
               (filter (\<lambda>m. match_score m = 100)
                  (map (spec_candidate (normalize_text s)) products)
                @ filter (\<lambda>m. match_score m = 60)
                    (map (spec_candidate (normalize_text s)) products)
                @ filter (\<lambda>m. match_score m = 30)
                    (map (spec_candidate (normalize_text s)) products))
         \<and> (kept = [] \<longrightarrow>
              resolveProductFuzzy products (JStr s) =
                Some (ResError (JObj [(''error'', JStr ''product_not_found''),
                                      (''product'', JStr s)])))
         \<and> (kept \<noteq> [] \<and> match_score (hd kept) = 100 \<longrightarrow>
              resolveProductFuzzy products (JStr s) = Some (ResProduct (hd kept)))
         \<and> (2 \<le> length kept \<and> match_score (hd kept) < 100 \<longrightarrow>
              resolveProductFuzzy products (JStr s) =
                Some (ResError
                        (JObj [(''error'', JStr ''multiple_products''),
                               (''products'',
                                JArr (map (\<lambda>m. JObj [(''id'', match_id m),
                                                        (''name'', match_name m)])
                                        kept))])))
         \<and> (length kept = 1 \<and> match_score (hd kept) < 100 \<longrightarrow>
              resolveProductFuzzy products (JStr s) = Some (ResProduct (hd kept)))"
proof -
  have kept: "fuzzy_matches products (JStr s) = Some (spec_kept products (normalize_text s))"
    using assms by (rule fuzzy_matches_spec)
  show ?thesis
    using kept spec_kept_bands[of products "normalize_text s"] resolve_decision[OF kept]
    by blast
qed

theorem resolveProductFuzzy_outcomes_witness:
  "resolveProductFuzzy milk_products (JStr ''milk'') =
     Some (ResProduct \<lparr>match_id = JNum 1, match_name = JStr ''Milk'', match_score = 100\<rparr>) \<and>
   resolveProductFuzzy apple_products (JStr ''apple'') =
     Some (ResError
             (JObj [(''error'', JStr ''multiple_products''),
                    (''products'',
                     JArr [JObj [(''id'', JNum 3), (''name'', JStr ''Apple Juice'')],
                           JObj [(''id'', JNum 4), (''name'', JStr ''Apple Sauce'')]])])) \<and>
   resolveProductFuzzy apple_products (JStr ''xyz123'') =
     Some (ResError (JObj [(''error'', JStr ''product_not_found''),
                           (''product'', JStr ''xyz123'')])) \<and>
   resolveProductFuzzy [hd apple_products] (JStr ''apple'') =
     Some (ResProduct \<lparr>match_id = JNum 3, match_name = JStr ''Apple Juice'', match_score = 60\<rparr>)"
proof -
  have p1: "\<forall>p\<in>set milk_products. is_product p"
    by (simp add: milk_products_def is_product_def)
  have p2: "\<forall>p\<in>set apple_products. is_product p"
    by (simp add: apple_products_def is_product_def)
  have p4: "\<forall>p\<in>set [hd apple_products]. is_product p"
    by (simp add: apple_products_def is_product_def)
  have m1: "fuzzy_matches milk_products (JStr ''milk'') = Some
    [\<lparr>match_id = JNum 1, match_name = JStr ''Milk'', match_score = 100\<rparr>,
     \<lparr>match_id = JNum 2, match_name = JStr ''Milk Substitute'', match_score = 60\<rparr>]"
    by (simp add: milk_products_def resolve_eval)
  have m2: "fuzzy_matches apple_products (JStr ''apple'') = Some
    [\<lparr>match_id = JNum 3, match_name = JStr ''Apple Juice'', match_score = 60\<rparr>,
     \<lparr>match_id = JNum 4, match_name = JStr ''Apple Sauce'', match_score = 60\<rparr>]"
    by (simp add: apple_products_def resolve_eval)
  have m3: "fuzzy_matches apple_products (JStr ''xyz123'') = Some []"
    by (simp add: apple_products_def resolve_eval)
  have m4: "fuzzy_matches [hd apple_products] (JStr ''apple'') = Some
    [\<lparr>match_id = JNum 3, match_name = JStr ''Apple Juice'', match_score = 60\<rparr>]"
    by (simp add: apple_products_def resolve_eval)
  show ?thesis
    using resolveProductFuzzy_outcomes[OF p1, of "''milk''"]
      resolveProductFuzzy_outcomes[OF p2, of "''apple''"]
      resolveProductFuzzy_outcomes[OF p2, of "''xyz123''"]
      resolveProductFuzzy_outcomes[OF p4, of "''apple''"]
    unfolding m1 m2 m3 m4
    by simp
qed

section \<open>Evaluating the examples\<close>

lemma truthy_get: "truthy (js_get b k) \<Longrightarrow> truthy b"
  by (cases b) auto



lemmas dec_eval = int_dec_def nat_dec.simps digit_char_def

lemma cache_key_inj: "cache_key e a = cache_key e b \<longleftrightarrow> a = b"
  by (simp add: cache_key_def)

lemma env0_eval:
  "CACHE_DURATION env0 = 21600"
  "DEFAULT_LOCATION_NAME env0 = JStr ''Fridge''"
  "DEFAULT_UNITS env0 =
     JObj [(''stock'', JStr ''Piece''), (''purchase'', JStr ''Piece''),
           (''consume'', JStr ''Piece''), (''price'', JStr ''Piece'')]"
  by (simp_all add: CACHE_DURATION_def DEFAULT_LOCATION_NAME_def DEFAULT_UNITS_def env0_def
      js_or_def)

lemmas fetch_eval =
  cacheGetJson_def cache_match_def cache_put_def fetch_def GET_def POST_def ok_def json_ok_def
  unavailable_def cache_key_inj env0_eval Let_def

lemma products_fetched:
  "getCachedProducts env0 (fresh grocy) = (Inr (JArr (milk_products @ apple_products)), stocked)"
  by (simp add: getCachedProducts_def getCached_def fetch_eval fresh_def grocy_def stocked_def)

lemma lists_fetched: "getCachedShoppingLists env0 (fresh grocy) = (Inr two_lists, listed)"
  by (simp add: getCachedShoppingLists_def getCached_def fetch_eval fresh_def grocy_def
      listed_def two_lists_def)

lemma milk_resolved:
  "resolveProductFuzzy (milk_products @ apple_products) (JStr ''Milk'') =
     Some (ResProduct \<lparr>match_id = JNum 1, match_name = JStr ''Milk'', match_score = 100\<rparr>)"
  by (simp add: resolveProductFuzzy_def milk_products_def apple_products_def resolve_eval)

section \<open>Properties of the cache-aside store\<close>

text \<open>
  C5, as the specification states it, fails for a successful response whose body is
  not JSON, such as the sign-in page of the proxy in front of the backend, served with
  status 200: \<^verbatim>\<open>cacheGetJson\<close> stores the page and then throws a SyntaxError
  instead of returning a payload; and on the hit that follows it does not return the
  stored payload either, it throws again.
\<close>

theorem cacheGetJson_not_json:
  "cache_match (fresh grocy_signed_out) (cache_key env0 ''products'') = None \<and>
   ok (backend (fresh grocy_signed_out) (GET ''/api/objects/products'')) \<and>
   cacheGetJson (fresh grocy_signed_out) (cache_key env0 ''products'')
       (GET ''/api/objects/products'') 21600 =
     (Inl SyntaxError, signed_out) \<and>
   cache_match signed_out (cache_key env0 ''products'') =
     Some (OtherText ''<html>Sign in</html>'') \<and>
   cacheGetJson signed_out (cache_key env0 ''products'') (GET ''/api/objects/products'') 21600 =
     (Inl SyntaxError, signed_out)"
  by (simp add: cacheGetJson_def cache_match_def cache_put_def fetch_def ok_def fresh_def
      grocy_signed_out_def sign_in_page_def signed_out_def)

text \<open>
  From then on the products cannot be fetched, although the backend may be back: the
  page stays in the cache for the six hours of its maximal age.
\<close>

lemma signed_out_products:
  "getCachedProducts env0 signed_out = (Inl SyntaxError, signed_out)"
  by (simp add: getCachedProducts_def getCached_def cacheGetJson_def cache_match_def
      signed_out_def)

text \<open>
  C5, amended by the condition that the payload is JSON. On a hit with a stored payload
  that is JSON, \<^verbatim>\<open>cacheGetJson\<close> returns the value of the payload and leaves the
  world as it is, so the fetcher is not invoked. On a miss it invokes the fetcher,
  once. If the response is not a success, it returns \<^verbatim>\<open>null\<close> (which every caller
  takes for the failure) and the cache is as before. If the response is a success and
  its payload is JSON, it returns the value of the payload and has stored the payload
  as it came, under the key, with the maximal age \<open>ttl\<close> from \<open>now\<close>; so
  \<^verbatim>\<open>cache.match\<close>, as the platform documents it, finds the payload at every time
  before \<open>now + ttl\<close> and at no time from then on.
\<close>

theorem cacheGetJson_cache_aside:
  "(cache_match w key = Some (JsonText v) \<longrightarrow> cacheGetJson w key fetcher ttl = (Inr v, w))
   \<and> (cache_match w key = None \<and> \<not> ok (backend w fetcher) \<longrightarrow>
        cacheGetJson w key fetcher ttl = (Inr JNull, w\<lparr> calls := calls w @ [fetcher] \<rparr>))
   \<and> (cache_match w key = None \<and> ok (backend w fetcher) \<and>
      payload (backend w fetcher) = JsonText v \<longrightarrow>
        cacheGetJson w key fetcher ttl =
          (Inr v,
           w\<lparr> calls := calls w @ [fetcher],
               cache := (cache w)(key \<mapsto>
                 \<lparr> stored = JsonText v, max_age = ttl, stored_at = now w \<rparr>) \<rparr>)
        \<and> (\<forall>t. cache_match (snd (cacheGetJson w key fetcher ttl)\<lparr> now := t \<rparr>) key =
                 (if t < now w + ttl then Some (JsonText v) else None)))"
  by (simp add: cacheGetJson_def fetch_def cache_put_def cache_match_def)

theorem cacheGetJson_cache_aside_witness:
  "cacheGetJson warm (cache_key env0 ''products'') (GET ''/api/objects/products'') 21600 =
     (Inr (JArr apple_products), warm)
   \<and> cacheGetJson (fresh grocy_down) (cache_key env0 ''products'')
         (GET ''/api/objects/products'') 21600 =
       (Inr JNull, (fresh grocy_down)\<lparr> calls := [GET ''/api/objects/products''] \<rparr>)
   \<and> cacheGetJson (fresh grocy) (cache_key env0 ''products'')
         (GET ''/api/objects/products'') 21600 =
       (Inr (JArr (milk_products @ apple_products)), stocked)"
proof -
  have hit: "cache_match warm (cache_key env0 ''products'') = Some (JsonText (JArr apple_products))"
    by (simp add: cache_match_def warm_def)
  have miss1: "cache_match (fresh grocy_down) (cache_key env0 ''products'') = None"
    by (simp add: cache_match_def fresh_def)
  have down: "\<not> ok (backend (fresh grocy_down) (GET ''/api/objects/products''))"
    by (simp add: fresh_def grocy_down_def unavailable_def ok_def)
  have miss2: "cache_match (fresh grocy) (cache_key env0 ''products'') = None"
    by (simp add: cache_match_def fresh_def)
  have up: "backend (fresh grocy) (GET ''/api/objects/products'') =
              json_ok (JArr (milk_products @ apple_products))"
    by (simp add: fresh_def grocy_def GET_def)
  have up_ok: "ok (json_ok (JArr (milk_products @ apple_products)))"
    "payload (json_ok (JArr (milk_products @ apple_products))) =
       JsonText (JArr (milk_products @ apple_products))"
    by (simp_all add: json_ok_def ok_def)
  show ?thesis
    using cacheGetJson_cache_aside[of warm "cache_key env0 ''products''" "JArr apple_products"
        "GET ''/api/objects/products''" 21600]
      cacheGetJson_cache_aside[of "fresh grocy_down" "cache_key env0 ''products''" _
        "GET ''/api/objects/products''" 21600]
      cacheGetJson_cache_aside[of "fresh grocy" "cache_key env0 ''products''"
        "JArr (milk_products @ apple_products)" "GET ''/api/objects/products''" 21600]
      hit miss1 down miss2 up_ok
    by (simp add: up) (simp add: fresh_def json_ok_def stocked_def)
qed

section \<open>Properties of the selection of a shopping list\<close>


lemma js_find_none: "\<forall>x\<in>set xs. \<not> p x \<Longrightarrow> js_find p xs = JUndef"
  by (induction xs) auto


text \<open>A search whose callback does not throw is the search with the plain callback.\<close>

lemma js_find_opt_total:
  "\<forall>x\<in>set xs. p x = Some (q x) \<Longrightarrow> js_find_opt p xs = Some (js_find q xs)"
  by (induction xs) simp_all

lemma js_some_opt_total:
  "\<forall>x\<in>set xs. p x = Some (q x) \<Longrightarrow> js_some_opt p xs = Some (list_ex q xs)"
  by (induction xs) simp_all







section \<open>Properties of the bulk processor\<close>

text \<open>
  C10, as the specification states it, fails for a body that is valid JSON and falsy,
  such as \<^verbatim>\<open>0\<close>: it has no \<^verbatim>\<open>items\<close>, and the answer is \<^verbatim>\<open>invalid_json\<close>, since
  the handler tells a body that did not parse by its being falsy.
\<close>

theorem bulk_items_gate_counterexample:
  "\<not> is_array (js_get (JNum 0) ''items'') \<and>
   fst (stock_add_bulk env0 (Some (JNum 0)) (fresh grocy)) =
     Responded (jsonError 400 (error_code ''invalid_json'')) \<and>
   fst (stock_add_bulk env0 (Some (JNum 0)) (fresh grocy)) \<noteq>
     Responded (jsonError 400 (error_code ''invalid_request''))"
  by (simp add: stock_add_bulk_def safeJson_def jsonError_def json_def error_code_def)

text \<open>
  C10, amended: a body that parses to a truthy value and whose \<^verbatim>\<open>items\<close> is absent,
  not an array or empty is answered 400 \<^verbatim>\<open>invalid_request\<close>, and a body that parses
  to a falsy value 400 \<^verbatim>\<open>invalid_json\<close>; in both cases the world is as before: no
  line was processed, no call was made.
\<close>

theorem bulk_items_gate:
  "(truthy body \<and> (\<not> is_array (js_get body ''items'') \<or> elems (js_get body ''items'') = []) \<longrightarrow>
      stock_add_bulk e (Some body) w =
        (Responded (jsonError 400 (error_code ''invalid_request'')), w))
   \<and> (\<not> truthy body \<longrightarrow>
      stock_add_bulk e (Some body) w =
        (Responded (jsonError 400 (error_code ''invalid_json'')), w))"
  by (auto simp: stock_add_bulk_def safeJson_def)

theorem bulk_items_gate_witness:
  "stock_add_bulk env0 (Some (JObj [(''items'', JArr [])])) (fresh grocy) =
     (Responded (jsonError 400 (error_code ''invalid_request'')), fresh grocy) \<and>
   stock_add_bulk env0 (Some (JObj [(''items'', JStr ''milk'')])) (fresh grocy) =
     (Responded (jsonError 400 (error_code ''invalid_request'')), fresh grocy) \<and>
   stock_add_bulk env0 (Some (JObj [(''lines'', JArr [JNum 1])])) (fresh grocy) =
     (Responded (jsonError 400 (error_code ''invalid_request'')), fresh grocy) \<and>
   stock_add_bulk env0 (Some JNull) (fresh grocy) =
     (Responded (jsonError 400 (error_code ''invalid_json'')), fresh grocy)"
  using bulk_items_gate[of "JObj [(''items'', JArr [])]" env0 "fresh grocy"]
    bulk_items_gate[of "JObj [(''items'', JStr ''milk'')]" env0 "fresh grocy"]
    bulk_items_gate[of "JObj [(''lines'', JArr [JNum 1])]" env0 "fresh grocy"]
    bulk_items_gate[of JNull env0 "fresh grocy"]
  by simp

lemma bulk_loop_length:
  "bulk_loop products items acc w = (Inr results, w') \<Longrightarrow>
   length results = length acc + length items"
proof (induction items arbitrary: acc w)
  case Nil
  then show ?case by simp
next
  case (Cons item rest)
  then show ?case
    by (auto split: prod.splits sum.splits)
qed

lemma stringify_report:
  "js_get (js_get (stringify (bulk_report safeItems results)) ''summary'') ''total'' =
     JNum (int (length safeItems)) \<and>
   length (elems (js_get (stringify (bulk_report safeItems results)) ''results'')) = length results"
  by (simp add: bulk_report_def)

text \<open>
  C4: a batch of more than 25 items is handled as the batch of its first 25 items is:
  the same response, the same calls, the same cache. When the response is the report,
  its \<^verbatim>\<open>total\<close> is 25 and it has 25 results.
\<close>

theorem bulk_cap:
  assumes "truthy body" and "js_get body ''items'' = JArr items" and "25 < length items"
  shows "stock_add_bulk e (Some body) w =
           stock_add_bulk e (Some (JObj [(''items'', JArr (take 25 items))])) w
       \<and> (\<forall>r w'. stock_add_bulk e (Some body) w = (Responded r, w') \<and> r_status r = 200 \<longrightarrow>
             js_get (js_get (body_json r) ''summary'') ''total'' = JNum 25 \<and>
             length (elems (js_get (body_json r) ''results'')) = 25)"
proof -
  have same: "stock_add_bulk e (Some body) w =
           stock_add_bulk e (Some (JObj [(''items'', JArr (take 25 items))])) w"
    using assms by (auto simp: stock_add_bulk_def safeJson_def MAX_ITEMS_def)
  have total: "js_get (js_get (body_json r) ''summary'') ''total'' = JNum 25 \<and>
             length (elems (js_get (body_json r) ''results'')) = 25"
    if run: "stock_add_bulk e (Some body) w = (Responded r, w')" and st: "r_status r = 200" for r w'
  proof -
    from run st assms obtain pd w1 results where
      loop: "bulk_loop (elems pd) (take 25 items) [] w1 = (Inr results, w')"
      and r: "r = json (bulk_report (take 25 items) results) 200"
      by (auto simp: stock_add_bulk_def safeJson_def MAX_ITEMS_def Let_def jsonError_def json_def
          text_response_def split: prod.splits sum.splits if_splits)
    from loop have "length results = 25"
      using bulk_loop_length[OF loop] assms(3) by simp
    then show ?thesis
      using stringify_report[of "take 25 items" results] assms(3)
      by (simp add: r json_def body_json_def)
  qed
  show ?thesis using same total by blast
qed

lemma bulk_loop_invalid_lines:
  assumes "\<not> nullish x" and "\<not> truthy (js_get x ''product'')"
  shows "bulk_loop ps (replicate k x) acc w =
           (Inr (acc @ replicate k (line_error (js_get x ''line'') ''invalid_line'')), w)"
proof (induction k arbitrary: acc)
  case 0
  then show ?case by simp
next
  case (Suc k)
  have "bulk_line ps x w = (Inr (line_error (js_get x ''line'') ''invalid_line''), w)"
    using assms by (simp add: bulk_line_def)
  then show ?case
    using Suc[of "acc @ [line_error (js_get x ''line'') ''invalid_line'']"]
    by (simp add: replicate_app_Cons_same)
qed

theorem bulk_cap_witness:
  "stock_add_bulk env0 (Some (JObj [(''items'', JArr thirty_items)])) (fresh grocy) =
     stock_add_bulk env0 (Some (JObj [(''items'', JArr (take 25 thirty_items))])) (fresh grocy)
   \<and> (\<exists>r. stock_add_bulk env0 (Some (JObj [(''items'', JArr thirty_items)])) (fresh grocy) =
              (Responded r, stocked) \<and>
            r_status r = 200 \<and>
            js_get (js_get (body_json r) ''summary'') ''total'' = JNum 25 \<and>
            js_get (js_get (body_json r) ''summary'') ''errors'' = JNum 25 \<and>
            length (elems (js_get (body_json r) ''results'')) = 25)"
proof -
  let ?x = "JObj [(''line'', JStr ''x'')]"
  let ?body = "JObj [(''items'', JArr thirty_items)]"
  let ?r = "json (bulk_report (replicate 25 ?x)
                    (replicate 25 (line_error (JStr ''x'') ''invalid_line''))) 200"
  have len: "25 < length thirty_items"
    by (simp add: thirty_items_def)
  have items: "js_get ?body ''items'' = JArr thirty_items"
    by simp
  have loop: "bulk_loop ps (replicate 25 ?x) [] w =
                (Inr (replicate 25 (line_error (JStr ''x'') ''invalid_line'')), w)" for ps w
    using bulk_loop_invalid_lines[of ?x ps 25 "[]" w] by simp
  have run: "stock_add_bulk env0 (Some ?body) (fresh grocy) = (Responded ?r, stocked)"
    by (simp add: stock_add_bulk_def safeJson_def MAX_ITEMS_def products_fetched loop
        thirty_items_def)
  have st: "r_status ?r = 200"
    by (simp add: json_def)
  have errs: "js_get (js_get (body_json ?r) ''summary'') ''errors'' = JNum 25"
    by (simp add: json_def body_json_def bulk_report_def has_status_def line_error_def)
  from bulk_cap[of ?body thirty_items env0 "fresh grocy"] len items
  have cap: "stock_add_bulk env0 (Some ?body) (fresh grocy) =
           stock_add_bulk env0 (Some (JObj [(''items'', JArr (take 25 thirty_items))])) (fresh grocy)"
    and tot: "js_get (js_get (body_json ?r) ''summary'') ''total'' = JNum 25 \<and>
             length (elems (js_get (body_json ?r) ''results'')) = 25"
    using run st by auto
  show ?thesis
    using cap run st errs tot by blast
qed

text \<open>Whatever a line throws is a TypeError, thrown before any call is made for the line.\<close>

lemma bulk_line_throws:
  "bulk_line ps i w = (Inl x, w') \<Longrightarrow> x = TypeError \<and> w' = w"
  by (auto simp: bulk_line_def Let_def
      split: if_splits option.splits resolved.splits prod.splits sum.splits)

text \<open>A product that has no string ends the request as a \<^verbatim>\<open>null\<close> line does.\<close>

lemma bulk_line_product_throws:
  assumes "\<not> nullish item" and "truthy (js_get item ''product'')"
      and "is_number (js_get item ''amount'')"
      and "resolveProductFuzzy ps (js_get item ''product'') = None"
  shows "bulk_line ps item w = (Inl TypeError, w)"
  using assms by (simp add: bulk_line_def)

lemma bulk_loop_null:
  "\<exists>x\<in>set items. nullish x \<Longrightarrow> \<exists>w'. bulk_loop ps items acc w = (Inl TypeError, w')"
proof (induction items arbitrary: acc w)
  case Nil
  then show ?case by simp
next
  case (Cons item rest)
  show ?case
  proof (cases "bulk_line ps item w")
    case (Pair res w1)
    show ?thesis
    proof (cases res)
      case (Inl x)
      with Pair have "x = TypeError" using bulk_line_throws by blast
      with Pair Inl show ?thesis by simp
    next
      case (Inr r)
      with Pair have "\<not> nullish item"
        by (auto simp: bulk_line_def)
      with Cons.prems have "\<exists>x\<in>set rest. nullish x" by auto
      from Cons.IH[OF this] Pair Inr show ?thesis by simp
    qed
  qed
qed

text \<open>
  A batch without a \<^verbatim>\<open>null\<close> line, and in which the resolution of no product
  throws, is processed to its end: one result for each line, in the order of the lines
  and under the reference of its line, each with status \<^verbatim>\<open>added\<close> or \<^verbatim>\<open>error\<close>,
  whatever befalls the other lines.
\<close>

lemma bulk_line_result:
  assumes "\<not> nullish item" and "resolveProductFuzzy ps (js_get item ''product'') \<noteq> None"
  shows "\<exists>r w'. bulk_line ps item w = (Inr r, w') \<and>
           js_get r ''line'' = js_get item ''line'' \<and>
           (has_status ''added'' r \<or> has_status ''error'' r)"
  using assms
  by (auto simp: bulk_line_def Let_def line_error_def has_status_def resolveProductFuzzy_def
      split: prod.splits list.splits option.splits sum.splits if_splits)

lemma bulk_loop_results:
  assumes "\<forall>i\<in>set items. \<not> nullish i \<and> resolveProductFuzzy ps (js_get i ''product'') \<noteq> None"
  shows "\<exists>results w'. bulk_loop ps items acc w = (Inr (acc @ results), w') \<and>
           map (\<lambda>r. js_get r ''line'') results = map (\<lambda>i. js_get i ''line'') items \<and>
           (\<forall>r\<in>set results. has_status ''added'' r \<or> has_status ''error'' r)"
  using assms
proof (induction items arbitrary: acc w)
  case Nil
  then show ?case by simp
next
  case (Cons item rest)
  then obtain r w1 where r: "bulk_line ps item w = (Inr r, w1)"
    "js_get r ''line'' = js_get item ''line''"
    "has_status ''added'' r \<or> has_status ''error'' r"
    using bulk_line_result[of item ps w] by auto
  from Cons obtain results w' where
    rest: "bulk_loop ps rest ((acc @ [r])) w1 = (Inr ((acc @ [r]) @ results), w')"
    "map (\<lambda>r. js_get r ''line'') results = map (\<lambda>i. js_get i ''line'') rest"
    "\<forall>r\<in>set results. has_status ''added'' r \<or> has_status ''error'' r"
    by (metis list.set_intros(2))
  show ?case
    by (rule exI[of _ "r # results"], rule exI[of _ w']) (use r rest in simp)
qed

lemma status_counts:
  "\<forall>r\<in>set results. has_status ''added'' r \<or> has_status ''error'' r \<Longrightarrow>
   length (filter (has_status ''added'') results) + length (filter (has_status ''error'') results) =
     length results"
proof (induction results)
  case Nil
  then show ?case by simp
next
  case (Cons r results)
  have "\<not> (has_status ''added'' r \<and> has_status ''error'' r)"
    by (cases "js_get r ''status''") (auto simp: has_status_def)
  with Cons show ?case by auto
qed

lemma bulk_partial_success:
  assumes "truthy body" and "js_get body ''items'' = JArr items" and "items \<noteq> []"
      and "\<forall>i\<in>set (take 25 items).
             \<not> nullish i \<and> resolveProductFuzzy (elems pd) (js_get i ''product'') \<noteq> None"
      and "getCachedProducts e w = (Inr pd, w1)"
  shows "\<exists>results w'.
           stock_add_bulk e (Some body) w =
             (Responded (json (bulk_report (take 25 items) results) 200), w') \<and>
           map (\<lambda>r. js_get r ''line'') results = map (\<lambda>i. js_get i ''line'') (take 25 items) \<and>
           length (filter (has_status ''added'') results) +
             length (filter (has_status ''error'') results) = length (take 25 items)"
proof -
  obtain results w' where r:
    "bulk_loop (elems pd) (take 25 items) [] w1 = (Inr results, w')"
    "map (\<lambda>r. js_get r ''line'') results = map (\<lambda>i. js_get i ''line'') (take 25 items)"
    "\<forall>r\<in>set results. has_status ''added'' r \<or> has_status ''error'' r"
    using bulk_loop_results[OF assms(4), of "[]" w1] by auto
  from r(2) have "length results = length (take 25 items)"
    by (metis length_map)
  with status_counts[OF r(3)] have
    "length (filter (has_status ''added'') results) +
       length (filter (has_status ''error'') results) = length (take 25 items)"
    by simp
  moreover have "stock_add_bulk e (Some body) w =
             (Responded (json (bulk_report (take 25 items) results) 200), w')"
    using assms(1,2,3,5) r(1) by (simp add: stock_add_bulk_def safeJson_def MAX_ITEMS_def)
  ultimately show ?thesis using r(2) by blast
qed

text \<open>
  C3 does not hold of the worker. A line that is \<^verbatim>\<open>null\<close> is no failure of that
  line only: once the products are fetched, a \<^verbatim>\<open>null\<close> among the first 25 items ends
  the whole request with a TypeError that nothing catches. There is no report, neither
  for the lines before it (whose stock is added by then) nor for the lines after it.
\<close>

theorem bulk_null_line_aborts:
  assumes "truthy body" and "js_get body ''items'' = JArr items"
      and "\<exists>i\<in>set (take 25 items). nullish i"
      and "getCachedProducts e w = (Inr pd, w1)"
  shows "\<exists>w'. stock_add_bulk e (Some body) w = (Uncaught TypeError, w')"
proof -
  from assms(3) have ne: "items \<noteq> []" by auto
  obtain w' where "bulk_loop (elems pd) (take 25 items) [] w1 = (Inl TypeError, w')"
    using bulk_loop_null[OF assms(3)] by blast
  then show ?thesis
    using assms(1,2,4) ne
    by (simp add: stock_add_bulk_def safeJson_def MAX_ITEMS_def)
qed

theorem bulk_null_line_aborts_witness:
  "fst (stock_add_bulk env0 (Some null_line_body) (fresh grocy)) = Uncaught TypeError \<and>
   calls (snd (stock_add_bulk env0 (Some null_line_body) (fresh grocy))) =
     [GET ''/api/objects/products'',
      GET ''/api/stock/products/1'',
      POST ''/api/objects/products/1/add''
        (JObj [(''amount'', JNum 1), (''best_before_date'', JUndef), (''qu_id'', JNum 1)])]"
proof -
  have items: "js_get null_line_body ''items'' =
      JArr [JObj [(''line'', JNum 1), (''product'', JStr ''Milk''), (''amount'', JNum 1)],
            JNull,
            JObj [(''line'', JNum 3), (''product'', JStr ''Apple Juice''), (''amount'', JNum 2)]]"
    by (simp add: null_line_body_def)
  have t: "truthy null_line_body"
    by (simp add: null_line_body_def)
  have thrown: "\<exists>w'. stock_add_bulk env0 (Some null_line_body) (fresh grocy) =
                  (Uncaught TypeError, w')"
    by (rule bulk_null_line_aborts[OF t items _ products_fetched]) simp
  have run: "calls (snd (stock_add_bulk env0 (Some null_line_body) (fresh grocy))) =
     [GET ''/api/objects/products'',
      GET ''/api/stock/products/1'',
      POST ''/api/objects/products/1/add''
        (JObj [(''amount'', JNum 1), (''best_before_date'', JUndef), (''qu_id'', JNum 1)])]"
    by (simp add: stock_add_bulk_def safeJson_def MAX_ITEMS_def products_fetched
        null_line_body_def bulk_line_def milk_resolved stocked_def fetch_def grocy_def GET_def
        POST_def ok_def json_ok_def milk_details_def coalesce_def js_opt_get_def dec_eval Let_def)
  show ?thesis using thrown run by auto
qed

section \<open>Properties of the creation of a product\<close>

lemma writes_cacheGetJson:
  "cacheGetJson w key (GET url) ttl = (v, w') \<Longrightarrow> writes w' = writes w"
  by (auto simp: cacheGetJson_def fetch_def cache_put_def writes_def GET_def
      split: option.splits if_splits)

lemma writes_getCached:
  "getCached e name url msg w = (x, w') \<Longrightarrow> writes w' = writes w"
  by (auto simp: getCached_def split: prod.splits sum.splits if_splits dest: writes_cacheGetJson)

lemma writes_create_gates:
  assumes "create_gates e rb w = (x, w')"
  shows "writes w' = writes w"
proof -
  obtain p w1 where p: "getCachedProducts e w = (p, w1)" by (cases "getCachedProducts e w")
  then have w1: "writes w1 = writes w"
    unfolding getCachedProducts_def by (rule writes_getCached)
  obtain l w2 where l: "cacheGetJson w1 (cache_key e ''locations'') (GET ''/api/objects/locations'')
                         (CACHE_DURATION e) = (l, w2)"
    by (cases "cacheGetJson w1 (cache_key e ''locations'') (GET ''/api/objects/locations'')
                         (CACHE_DURATION e)")
  then have w2: "writes w2 = writes w1" by (rule writes_cacheGetJson)
  obtain u w3 where u: "cacheGetJson w2 (cache_key e ''quantity-units'')
                         (GET ''/api/objects/quantity_units'') (CACHE_DURATION e) = (u, w3)"
    by (cases "cacheGetJson w2 (cache_key e ''quantity-units'')
                         (GET ''/api/objects/quantity_units'') (CACHE_DURATION e)")
  then have w3: "writes w3 = writes w2" by (rule writes_cacheGetJson)
  from assms p l u have "w' = w \<or> w' = w1 \<or> w' = w2 \<or> w' = w3"
    by (auto simp: create_gates_def Let_def split: if_splits sum.splits option.splits)
  then show ?thesis using w1 w2 w3 by auto
qed

lemma first_unresolved_some:
  "\<exists>r\<in>set rs. \<not> truthy (f r) \<Longrightarrow>
   \<exists>role\<in>set rs. \<not> truthy (f role) \<and>
      (\<forall>r\<in>set (takeWhile (\<lambda>r. r \<noteq> role) rs). truthy (f r)) \<and>
      first_unresolved (map (\<lambda>r. (r, f r)) rs) = Some role"
proof (induction rs)
  case Nil
  then show ?case by simp
next
  case (Cons a rs)
  show ?case
  proof (cases "truthy (f a)")
    case False
    then show ?thesis by auto
  next
    case True
    with Cons.prems have "\<exists>r\<in>set rs. \<not> truthy (f r)" by auto
    from Cons.IH[OF this] obtain role where role: "role \<in> set rs" "\<not> truthy (f role)"
      "\<forall>r\<in>set (takeWhile (\<lambda>r. r \<noteq> role) rs). truthy (f r)"
      "first_unresolved (map (\<lambda>r. (r, f r)) rs) = Some role"
      by blast
    from role(2) True have "a \<noteq> role" by auto
    with role True show ?thesis by auto
  qed
qed

lemma normalize_eq_total:
  "normalize_str a \<noteq> None \<Longrightarrow> normalize_str b \<noteq> None \<Longrightarrow>
   normalize_eq a b = Some (normalize_str a = normalize_str b)"
  by (auto simp: normalize_eq_def)

text \<open>With names that have a string, a unit is searched by the equality of the normalized names.\<close>

lemma resolveUnit_total:
  assumes "\<forall>u\<in>set (elems units). normalize_str (js_get u ''name'') \<noteq> None"
      and "normalize_str unitName \<noteq> None"
  shows "resolveUnit units unitName =
           Some (js_find (\<lambda>u. normalize_str (js_get u ''name'') = normalize_str unitName)
                   (elems units))"
  unfolding resolveUnit_def using assms by (intro js_find_opt_total) (simp add: normalize_eq_total)

lemma resolvedUnits_map:
  assumes "\<forall>role\<in>set unit_roles. resolveUnit units (unit_name e qu role) = Some (f role)"
  shows "resolvedUnits e qu units = Some (map (\<lambda>r. (r, f r)) unit_roles)"
  using assms by (simp add: resolvedUnits_def unit_roles_def)

text \<open>
  Two requests the handler answers with no response at all, having made no write
  call: one whose \<^verbatim>\<open>quantity_units\<close> is \<^verbatim>\<open>null\<close> (line 490), and one for which
  \<^verbatim>\<open>normalize\<close> throws while the units are resolved.
\<close>

lemma create_units_throw:
  assumes "create_gates e rb w = (Inr (location, units), w3)"
      and "nullish (quantity_units_of (safeJson rb)) \<or>
           resolvedUnits e (quantity_units_of (safeJson rb)) units = None"
  shows "products_create e rb w = (Uncaught TypeError, w3) \<and> writes w3 = writes w"
  using assms writes_create_gates[OF assms(1)] by (auto simp: products_create_def Let_def)

lemma butter_gates:
  "create_gates env0 (Some butter_body) (fresh grocy) =
     (Inr (JObj [(''id'', JNum 1), (''name'', JStr ''Fridge'')], household_units), gated)"
  by (simp add: create_gates_def safeJson_def butter_body_def products_fetched stocked_def
      milk_products_def apple_products_def normalize_eval fetch_eval grocy_def gated_def
      household_units_def)

lemma milk_again_gates:
  "create_gates env0 (Some milk_again_body) (fresh grocy) =
     (Inl (Responded (jsonError 400 (JObj [(''error'', JStr ''product_exists''),
                                           (''product'', JStr ''Milk'')]))), stocked)"
  by (simp add: create_gates_def safeJson_def milk_again_body_def products_fetched
      milk_products_def apple_products_def normalize_eval Let_def)

text \<open>
  C2, as the specification states it, fails for a request that a gate before the
  quantity units rejects. The request to create \<^verbatim>\<open>Milk\<close> with the stock unit
  \<^verbatim>\<open>Crate\<close>, when the catalogue has a product \<^verbatim>\<open>Milk\<close> and the quantity units are
  \<^verbatim>\<open>Piece\<close> and \<^verbatim>\<open>Pack\<close>, has a role that no unit resolves; it is answered 400
  \<^verbatim>\<open>product_exists\<close> by the duplicate check (lines 461-463), an error that names no
  role, and its roles are never looked at.
\<close>

theorem create_unit_gate_counterexample:
  "backend (fresh grocy) (GET ''/api/objects/quantity_units'') = json_ok household_units \<and>
   resolveUnit household_units (unit_name env0 (quantity_units_of milk_again_body) ''stock'') =
     Some JUndef \<and>
   products_create env0 (Some milk_again_body) (fresh grocy) =
     (Responded (jsonError 400 (JObj [(''error'', JStr ''product_exists''),
                                      (''product'', JStr ''Milk'')])), stocked) \<and>
   fst (products_create env0 (Some milk_again_body) (fresh grocy)) \<noteq>
     Responded (invalid_quantity_unit ''stock'')"
proof -
  have 1: "backend (fresh grocy) (GET ''/api/objects/quantity_units'') = json_ok household_units"
    by (simp add: fresh_def grocy_def GET_def)
  have 2: "resolveUnit household_units
             (unit_name env0 (quantity_units_of milk_again_body) ''stock'') = Some JUndef"
    by (simp add: resolveUnit_def household_units_def unit_name_def quantity_units_of_def
        milk_again_body_def normalize_eval)
  have 3: "products_create env0 (Some milk_again_body) (fresh grocy) =
     (Responded (jsonError 400 (JObj [(''error'', JStr ''product_exists''),
                                      (''product'', JStr ''Milk'')])), stocked)"
    by (simp add: products_create_def milk_again_gates)
  have 4: "fst (products_create env0 (Some milk_again_body) (fresh grocy)) \<noteq>
     Responded (invalid_quantity_unit ''stock'')"
    unfolding 3 by (simp add: invalid_quantity_unit_def jsonError_def json_def)
  show ?thesis using 1 2 3 4 by blast
qed

text \<open>
  C2, amended. A request that a gate before the quantity units rejects (the body, the
  name, the duplicate check, the location, a fetch that fails) gets the outcome of that
  gate, without a write call. A request that passes these gates, whose
  \<^verbatim>\<open>quantity_units\<close> is not \<^verbatim>\<open>null\<close>, where the names of the four roles and of the
  units have a string, and for which no unit has the normalized name of one of the four
  roles, is answered 400 \<^verbatim>\<open>invalid_quantity_unit\<close> naming a role that has no unit
  while every role before it, in the order stock, purchase, consume, price, has one;
  and the handler has made no write call.
\<close>

theorem create_unit_gate:
  "(create_gates e rb w = (Inl out, w') \<longrightarrow>
      products_create e rb w = (out, w') \<and> writes w' = writes w)
   \<and> (create_gates e rb w = (Inr (location, units), w3) \<and>
      \<not> nullish (quantity_units_of (safeJson rb)) \<and>
      (\<forall>role\<in>set unit_roles.
          normalize_str (unit_name e (quantity_units_of (safeJson rb)) role) \<noteq> None) \<and>
      (\<forall>u\<in>set (elems units). normalize_str (js_get u ''name'') \<noteq> None) \<and>
      (\<exists>role\<in>set unit_roles. \<forall>u\<in>set (elems units).
          normalize_str (js_get u ''name'') \<noteq>
          normalize_str (unit_name e (quantity_units_of (safeJson rb)) role)) \<longrightarrow>
      (\<exists>role\<in>set unit_roles.
           (\<exists>u. resolveUnit units (unit_name e (quantity_units_of (safeJson rb)) role) = Some u \<and>
                \<not> truthy u)
         \<and> (\<forall>r\<in>set (takeWhile (\<lambda>r. r \<noteq> role) unit_roles).
               \<exists>u. resolveUnit units (unit_name e (quantity_units_of (safeJson rb)) r) = Some u \<and>
                   truthy u)
         \<and> products_create e rb w = (Responded (invalid_quantity_unit role), w3)
         \<and> writes w3 = writes w))"
proof -
  let ?qu = "quantity_units_of (safeJson rb)"
  let ?f = "\<lambda>r. js_find (\<lambda>u. normalize_str (js_get u ''name'') =
                               normalize_str (unit_name e ?qu r)) (elems units)"
  have early: "products_create e rb w = (out, w') \<and> writes w' = writes w"
    if "create_gates e rb w = (Inl out, w')"
    using that writes_create_gates[OF that] by (simp add: products_create_def)
  have gate: "\<exists>role\<in>set unit_roles.
           (\<exists>u. resolveUnit units (unit_name e ?qu role) = Some u \<and> \<not> truthy u)
         \<and> (\<forall>r\<in>set (takeWhile (\<lambda>r. r \<noteq> role) unit_roles).
               \<exists>u. resolveUnit units (unit_name e ?qu r) = Some u \<and> truthy u)
         \<and> products_create e rb w = (Responded (invalid_quantity_unit role), w3)
         \<and> writes w3 = writes w"
    if gates: "create_gates e rb w = (Inr (location, units), w3)"
      and nn: "\<not> nullish ?qu"
      and roles: "\<forall>role\<in>set unit_roles. normalize_str (unit_name e ?qu role) \<noteq> None"
      and names: "\<forall>u\<in>set (elems units). normalize_str (js_get u ''name'') \<noteq> None"
      and unresolved: "\<exists>role\<in>set unit_roles. \<forall>u\<in>set (elems units).
          normalize_str (js_get u ''name'') \<noteq> normalize_str (unit_name e ?qu role)"
  proof -
    have found: "\<forall>role\<in>set unit_roles. resolveUnit units (unit_name e ?qu role) = Some (?f role)"
      using roles resolveUnit_total[OF names] by blast
    from unresolved obtain r0 where r0: "r0 \<in> set unit_roles"
      "\<forall>u\<in>set (elems units).
          normalize_str (js_get u ''name'') \<noteq> normalize_str (unit_name e ?qu r0)"
      by blast
    then have "?f r0 = JUndef"
      by (intro js_find_none) simp
    then have "\<not> truthy (?f r0)" by simp
    with r0(1) have "\<exists>r\<in>set unit_roles. \<not> truthy (?f r)" by blast
    from first_unresolved_some[OF this] obtain role where role: "role \<in> set unit_roles"
      "\<not> truthy (?f role)"
      "\<forall>r\<in>set (takeWhile (\<lambda>r. r \<noteq> role) unit_roles). truthy (?f r)"
      "first_unresolved (map (\<lambda>r. (r, ?f r)) unit_roles) = Some role"
      by blast
    have before: "\<forall>r\<in>set (takeWhile (\<lambda>r. r \<noteq> role) unit_roles).
               \<exists>u. resolveUnit units (unit_name e ?qu r) = Some u \<and> truthy u"
    proof
      fix r assume r: "r \<in> set (takeWhile (\<lambda>r. r \<noteq> role) unit_roles)"
      then have "r \<in> set unit_roles" by (rule set_takeWhileD[THEN conjunct1])
      with found role(3) r show "\<exists>u. resolveUnit units (unit_name e ?qu r) = Some u \<and> truthy u"
        by blast
    qed
    have "products_create e rb w = (Responded (invalid_quantity_unit role), w3)"
      using gates nn role(4)
      by (simp add: products_create_def resolvedUnits_map[OF found] invalid_quantity_unit_def
          Let_def)
    moreover have "writes w3 = writes w"
      using gates by (rule writes_create_gates)
    ultimately show ?thesis using role(1,2) found before by blast
  qed
  show ?thesis using early gate by blast
qed

theorem create_unit_gate_witness:
  "products_create env0 (Some butter_body) (fresh grocy) =
     (Responded (invalid_quantity_unit ''purchase''), gated) \<and>
   writes gated = [] \<and>
   products_create env0 (Some nameless_body) (fresh grocy) =
     (Responded (jsonError 400 (error_code ''invalid_request'')), fresh grocy) \<and>
   writes (fresh grocy) = []"
proof -
  let ?qu = "JObj [(''purchase'', JStr ''Crate'')]"
  have qu: "quantity_units_of (safeJson (Some butter_body)) = ?qu"
    by (simp add: quantity_units_of_def safeJson_def butter_body_def)
  have nn: "\<not> nullish (quantity_units_of (safeJson (Some butter_body)))"
    by (simp add: qu)
  have roles: "\<forall>role\<in>set unit_roles.
      normalize_str (unit_name env0 (quantity_units_of (safeJson (Some butter_body))) role) \<noteq> None"
    unfolding qu by (simp add: unit_roles_def unit_name_def env0_eval normalize_str_def js_or_def)
  have names: "\<forall>u\<in>set (elems household_units). normalize_str (js_get u ''name'') \<noteq> None"
    by (simp add: household_units_def normalize_str_def js_or_def)
  have stock: "resolveUnit household_units (unit_name env0 ?qu ''stock'') =
                 Some (JObj [(''id'', JNum 1), (''name'', JStr ''Piece'')])"
    by (simp add: resolveUnit_def household_units_def unit_name_def env0_eval normalize_eval)
  have purchase: "\<forall>u\<in>set (elems household_units).
      normalize_str (js_get u ''name'') \<noteq> normalize_str (unit_name env0 ?qu ''purchase'')"
    by (simp add: household_units_def unit_name_def normalize_eval)
  then have unresolved: "\<exists>role\<in>set unit_roles. \<forall>u\<in>set (elems household_units).
      normalize_str (js_get u ''name'') \<noteq>
      normalize_str (unit_name env0 (quantity_units_of (safeJson (Some butter_body))) role)"
    unfolding unit_roles_def qu by (intro bexI[of _ "''purchase''"]) simp_all
  have passed: "create_gates env0 (Some butter_body) (fresh grocy) =
        (Inr (JObj [(''id'', JNum 1), (''name'', JStr ''Fridge'')], household_units), gated) \<and>
      \<not> nullish (quantity_units_of (safeJson (Some butter_body))) \<and>
      (\<forall>role\<in>set unit_roles.
          normalize_str (unit_name env0 (quantity_units_of (safeJson (Some butter_body))) role) \<noteq>
          None) \<and>
      (\<forall>u\<in>set (elems household_units). normalize_str (js_get u ''name'') \<noteq> None) \<and>
      (\<exists>role\<in>set unit_roles. \<forall>u\<in>set (elems household_units).
          normalize_str (js_get u ''name'') \<noteq>
          normalize_str (unit_name env0 (quantity_units_of (safeJson (Some butter_body))) role))"
    using butter_gates nn roles names unresolved by (intro conjI)
  from create_unit_gate[of env0 "Some butter_body" "fresh grocy" "Uncaught TypeError" gated
      "JObj [(''id'', JNum 1), (''name'', JStr ''Fridge'')]" household_units gated,
      THEN conjunct2, THEN mp, OF passed]
  obtain role where role: "role \<in> set unit_roles"
    "\<exists>u. resolveUnit household_units (unit_name env0 ?qu role) = Some u \<and> \<not> truthy u"
    "\<forall>r\<in>set (takeWhile (\<lambda>r. r \<noteq> role) unit_roles).
        \<exists>u. resolveUnit household_units (unit_name env0 ?qu r) = Some u \<and> truthy u"
    "products_create env0 (Some butter_body) (fresh grocy) =
       (Responded (invalid_quantity_unit role), gated)"
    "writes gated = writes (fresh grocy)"
    unfolding qu by blast
  have np: "resolveUnit household_units (unit_name env0 ?qu ''purchase'') = Some JUndef"
    by (simp add: resolveUnit_def household_units_def unit_name_def env0_eval normalize_eval)
  from role(1) consider "role = ''stock''" | "role = ''purchase''" | "role = ''consume''"
    | "role = ''price''"
    by (auto simp: unit_roles_def)
  then have "role = ''purchase''"
  proof cases
    case 1
    with role(2) stock show ?thesis by simp
  next
    case 2
    then show ?thesis .
  next
    case 3
    with role(3) np show ?thesis by (simp add: unit_roles_def)
  next
    case 4
    with role(3) np show ?thesis by (simp add: unit_roles_def)
  qed
  with role(4,5) have butter:
    "products_create env0 (Some butter_body) (fresh grocy) =
       (Responded (invalid_quantity_unit ''purchase''), gated) \<and> writes gated = []"
    by (simp add: writes_def fresh_def)
  have nameless: "create_gates env0 (Some nameless_body) (fresh grocy) =
      (Inl (Responded (jsonError 400 (error_code ''invalid_request''))), fresh grocy)"
    by (simp add: create_gates_def safeJson_def nameless_body_def)
  from create_unit_gate[of env0 "Some nameless_body" "fresh grocy"
      "Responded (jsonError 400 (error_code ''invalid_request''))" "fresh grocy",
      THEN conjunct1, THEN mp, OF nameless]
  have early: "products_create env0 (Some nameless_body) (fresh grocy) =
     (Responded (jsonError 400 (error_code ''invalid_request'')), fresh grocy) \<and>
     writes (fresh grocy) = []"
    by (simp add: writes_def fresh_def)
  show ?thesis using butter early by blast
qed

section \<open>Properties of the error responses\<close>

text \<open>
  C6 does not hold of the worker. When the shopping lists cannot be fetched (they are
  not cached and the backend answers with a status that is no success), a well-formed
  request to add an item is answered 502 with the plain text
  \<^verbatim>\<open>Failed to fetch shopping lists\<close>, not with a JSON object; and when the lists are
  there and the products cannot be fetched, with the plain text
  \<^verbatim>\<open>Failed to fetch products\<close>.
\<close>

theorem unavailable_backend_plain_text:
  "(truthy (js_get body ''product'') \<and> is_number (js_get body ''amount'') \<and>
    cache_match w (cache_key e ''shopping_lists'') = None \<and>
    \<not> ok (backend w (GET ''/api/objects/shopping_lists'')) \<longrightarrow>
      shopping_list_add e (Some body) w =
        (Responded \<lparr> r_status = 502, r_body = TextBody ''Failed to fetch shopping lists'' \<rparr>,
         w\<lparr> calls := calls w @ [GET ''/api/objects/shopping_lists''] \<rparr>))
   \<and> (truthy (js_get body ''product'') \<and> is_number (js_get body ''amount'') \<and>
      getCachedShoppingLists e w = (Inr ld, w1) \<and>
      select_list_add (elems ld) (js_get body ''shopping_list_id'') = Inr l \<and>
      cache_match w1 (cache_key e ''products'') = None \<and>
      \<not> ok (backend w1 (GET ''/api/objects/products'')) \<longrightarrow>
        shopping_list_add e (Some body) w =
          (Responded \<lparr> r_status = 502, r_body = TextBody ''Failed to fetch products'' \<rparr>,
           w1\<lparr> calls := calls w1 @ [GET ''/api/objects/products''] \<rparr>))"
proof -
  have lists: "shopping_list_add e (Some body) w =
        (Responded \<lparr> r_status = 502, r_body = TextBody ''Failed to fetch shopping lists'' \<rparr>,
         w\<lparr> calls := calls w @ [GET ''/api/objects/shopping_lists''] \<rparr>)"
    if "truthy (js_get body ''product'')" "is_number (js_get body ''amount'')"
      "cache_match w (cache_key e ''shopping_lists'') = None"
      "\<not> ok (backend w (GET ''/api/objects/shopping_lists''))"
  proof -
    have "truthy body" using that(1) by (rule truthy_get)
    moreover have "getCachedShoppingLists e w =
        (Inl (Error ''Failed to fetch shopping lists''),
         w\<lparr> calls := calls w @ [GET ''/api/objects/shopping_lists''] \<rparr>)"
      using that(3,4)
      by (simp add: getCachedShoppingLists_def getCached_def cacheGetJson_def fetch_def)
    ultimately show ?thesis
      using that(1,2) by (simp add: shopping_list_add_def safeJson_def text_response_def)
  qed
  have products: "shopping_list_add e (Some body) w =
          (Responded \<lparr> r_status = 502, r_body = TextBody ''Failed to fetch products'' \<rparr>,
           w1\<lparr> calls := calls w1 @ [GET ''/api/objects/products''] \<rparr>)"
    if "truthy (js_get body ''product'')" "is_number (js_get body ''amount'')"
      "getCachedShoppingLists e w = (Inr ld, w1)"
      "select_list_add (elems ld) (js_get body ''shopping_list_id'') = Inr l"
      "cache_match w1 (cache_key e ''products'') = None"
      "\<not> ok (backend w1 (GET ''/api/objects/products''))"
  proof -
    have "truthy body" using that(1) by (rule truthy_get)
    moreover have "getCachedProducts e w1 =
        (Inl (Error ''Failed to fetch products''),
         w1\<lparr> calls := calls w1 @ [GET ''/api/objects/products''] \<rparr>)"
      using that(5,6)
      by (simp add: getCachedProducts_def getCached_def cacheGetJson_def fetch_def)
    ultimately show ?thesis
      using that(1,2,3,4) by (simp add: shopping_list_add_def safeJson_def text_response_def)
  qed
  show ?thesis using lists products by blast
qed

lemma lists_fetched_without:
  "getCachedShoppingLists env0 (fresh grocy_no_products) = (Inr two_lists, listed_without)"
  by (simp add: getCachedShoppingLists_def getCached_def fetch_eval fresh_def grocy_def
      grocy_no_products_def listed_def listed_without_def two_lists_def)

theorem unavailable_backend_plain_text_witness:
  "shopping_list_add env0 (Some add_milk) (fresh grocy_down) =
     (Responded \<lparr> r_status = 502, r_body = TextBody ''Failed to fetch shopping lists'' \<rparr>,
      (fresh grocy_down)\<lparr> calls := [GET ''/api/objects/shopping_lists''] \<rparr>)
   \<and> shopping_list_add env0 (Some add_to_weekly) (fresh grocy_no_products) =
     (Responded \<lparr> r_status = 502, r_body = TextBody ''Failed to fetch products'' \<rparr>,
      listed_without\<lparr> calls := [GET ''/api/objects/shopping_lists'',
                                  GET ''/api/objects/products''] \<rparr>)"
proof -
  have 1: "truthy (js_get add_milk ''product'')" "is_number (js_get add_milk ''amount'')"
    by (simp_all add: add_milk_def)
  have 2: "cache_match (fresh grocy_down) (cache_key env0 ''shopping_lists'') = None"
    by (simp add: cache_match_def fresh_def)
  have 3: "\<not> ok (backend (fresh grocy_down) (GET ''/api/objects/shopping_lists''))"
    by (simp add: fresh_def grocy_down_def unavailable_def ok_def)
  have 4: "truthy (js_get add_to_weekly ''product'')" "is_number (js_get add_to_weekly ''amount'')"
    by (simp_all add: add_to_weekly_def)
  have 5: "select_list_add (elems two_lists) (js_get add_to_weekly ''shopping_list_id'') =
             Inr (JObj [(''id'', JNum 1), (''name'', JStr ''Weekly'')])"
    by (simp add: select_list_add_def two_lists_def add_to_weekly_def)
  have 6: "cache_match listed_without (cache_key env0 ''products'') = None"
    by (simp add: cache_match_def listed_without_def listed_def cache_key_inj)
  have 7: "\<not> ok (backend listed_without (GET ''/api/objects/products''))"
    by (simp add: listed_without_def grocy_no_products_def GET_def unavailable_def ok_def)
  from unavailable_backend_plain_text[of add_milk "fresh grocy_down" env0]
    unavailable_backend_plain_text[of add_to_weekly "fresh grocy_no_products" env0 two_lists
      listed_without]
    1 2 3 4 5 6 7 lists_fetched_without
  show ?thesis
    by (simp add: fresh_def listed_without_def listed_def)
qed

section \<open>Properties of the enriched shopping list\<close>

lemma parse_json_Inr: "parse_json b = Inr v \<longleftrightarrow> b = JsonText v"
  by (cases b) auto

text \<open>
  A product whose details cannot be fetched gets no entry in \<^verbatim>\<open>lastPurchaseMap\<close>
  (line 319), and the lookups of the other products go on.
\<close>

lemma lastPurchases_failed:
  assumes "js_string productId = Some pid"
      and "cacheGetJson w (cache_key e (''stock-product/'' @ pid))
             (GET (''/api/stock/products/'' @ pid)) 3600 = (Inr details, w1)"
      and "\<not> truthy details"
  shows "lastPurchases e (productId # rest) lastPurchaseMap w =
           lastPurchases e rest lastPurchaseMap w1"
  using assms by simp

text \<open>
  The rows are those of the first 50 items, in their order: the list of the rows is the
  list of the items, each item enriched.
\<close>

lemma shopping_list_view_rows:
  assumes "shopping_list_view e selectedList w1 = (Responded r, w')" and "r_status r = 200"
  shows "\<exists>list_id fetched productMap storeMap lastPurchaseMap rows.
           js_string (js_get selectedList ''id'') = Some list_id \<and>
           payload (backend w1 (GET (''/api/objects/shopping_list?list_id='' @ list_id))) =
             JsonText fetched \<and>
           those (map (enrich productMap storeMap lastPurchaseMap) (take 50 (elems fetched))) =
             Some rows \<and>
           r = json
                 (JObj [(''list'',
                         JObj [(''id'', js_get selectedList ''id''),
                               (''name'', js_get selectedList ''name'')]),
                        (''items'', JArr rows)])
                 200"
proof -
  from assms obtain list_id where lid: "js_string (js_get selectedList ''id'') = Some list_id"
    by (auto simp: shopping_list_view_def split: option.splits)
  let ?resp = "backend w1 (GET (''/api/objects/shopping_list?list_id='' @ list_id))"
  from assms lid obtain fetched where fetched: "payload ?resp = JsonText fetched" "ok ?resp"
    by (cases "payload ?resp")
       (auto simp: shopping_list_view_def fetch_def text_response_def split: if_splits)
  from assms lid fetched show ?thesis
    by (auto simp: shopping_list_view_def fetch_def Let_def text_response_def
        split: prod.splits sum.splits option.splits)
qed

text \<open>A row whose product the catalogue does not name is called \<^verbatim>\<open>Unknown\<close>.\<close>

lemma enrich_unknown:
  assumes "enrich productMap storeMap lastPurchaseMap i = Some row"
      and "js_index productMap (js_get i ''product_id'') = Some name"
      and "nullish name"
  shows "js_get row ''product_name'' = JStr ''Unknown''"
  using assms by (auto simp: enrich_def coalesce_def Let_def split: option.splits if_splits)

text \<open>
  C7 does not hold of the worker in what it says of the pricing fields. A row whose
  product has no entry in \<^verbatim>\<open>lastPurchaseMap\<close>, as when the fetch of its details
  failed, has \<^verbatim>\<open>last_store\<close> \<^verbatim>\<open>null\<close>, but its five pricing fields taken from the
  last purchase are \<^verbatim>\<open>undefined\<close>, not \<^verbatim>\<open>null\<close>: the response leaves them out, and
  the pricing object it sends has the amount and the unit of the item only.
\<close>

theorem failed_details_leave_pricing_undefined:
  assumes "js_index lastPurchaseMap (js_get i ''product_id'') = Some JUndef"
  shows "\<exists>row. enrich productMap storeMap lastPurchaseMap i = Some row
       \<and> js_get (js_get row ''pricing'') ''last_price_per_price_unit'' = JUndef
       \<and> js_get (js_get row ''pricing'') ''price_unit'' = JUndef
       \<and> js_get (js_get row ''pricing'') ''price_qu_id'' = JUndef
       \<and> js_get (js_get row ''pricing'') ''purchase_to_stock_factor'' = JUndef
       \<and> js_get (js_get row ''pricing'') ''price_to_stock_factor'' = JUndef
       \<and> js_get row ''last_store'' = JNull
       \<and> stringify (js_get row ''pricing'') =
           stringify (JObj [(''amount'', js_get i ''amount''),
                            (''shopping_list_qu_id'', coalesce (js_get i ''qu_id'') JNull)])"
proof -
  from assms obtain key where key: "js_string (js_get i ''product_id'') = Some key"
    by (auto simp: js_index_def)
  then have "js_index productMap (js_get i ''product_id'') = Some (js_get productMap key)"
    by (simp add: js_index_def)
  with assms show ?thesis
    by (simp add: enrich_def coalesce_def Let_def)
qed

text \<open>
  The enriched view of the list Weekly: the details of Milk are fetched, those of Apple
  Juice are not (the backend answers 503), and product 9 is not in the catalogue.
\<close>

lemma weekly_view:
  "fst (shopping_list_get env0 (Some ''1'') (fresh grocy)) =
     Responded
       \<lparr> r_status = 200,
         r_body = JsonBody
           (JObj
             [(''list'', JObj [(''id'', JNum 1), (''name'', JStr ''Weekly'')]),
              (''items'',
               JArr
                [JObj
                  [(''product_id'', JNum 1), (''product_name'', JStr ''Milk''),
                   (''amount'', JNum 2), (''note'', JNull),
                   (''last_store'', JStr ''Corner Shop''),
                   (''pricing'',
                    JObj
                     [(''last_price_per_price_unit'', JNum 2), (''price_unit'', JNull),
                      (''price_qu_id'', JNum 1), (''amount'', JNum 2),
                      (''shopping_list_qu_id'', JNull), (''purchase_to_stock_factor'', JNull),
                      (''price_to_stock_factor'', JNull)])],
                 JObj
                  [(''product_id'', JNum 3), (''product_name'', JStr ''Apple Juice''),
                   (''amount'', JNum 1), (''note'', JNull), (''last_store'', JNull),
                   (''pricing'',
                    JObj [(''amount'', JNum 1), (''shopping_list_qu_id'', JNull)])],
                 JObj
                  [(''product_id'', JNum 9), (''product_name'', JStr ''Unknown''),
                   (''amount'', JNum 6), (''note'', JStr ''ripe''), (''last_store'', JNull),
                   (''pricing'',
                    JObj [(''amount'', JNum 6), (''shopping_list_qu_id'', JNull)])]])]) \<rparr>"
  by (simp add: shopping_list_get_def lists_fetched two_lists_def select_list_get_def
      param_truthy_def param_string_def dec_eval shopping_list_view_def listed_def
      getCachedProducts_def getCachedStores_def getCached_def fetch_eval grocy_def
      weekly_items_def js_set_def milk_products_def apple_products_def fromEntries_def
      milk_details_def last_purchase_def js_opt_get_def coalesce_def enrich_def js_index_def
      json_def)

theorem failed_details_leave_pricing_undefined_witness:
  "js_index weekly_purchases (js_get juice_item ''product_id'') = Some JUndef \<and>
   (\<exists>row. enrich (JObj []) (JObj []) weekly_purchases juice_item = Some row \<and>
          js_get (js_get row ''pricing'') ''last_price_per_price_unit'' = JUndef \<and>
          stringify (js_get row ''pricing'') =
            JObj [(''amount'', JNum 1), (''shopping_list_qu_id'', JNull)]) \<and>
   (\<exists>r. fst (shopping_list_get env0 (Some ''1'') (fresh grocy)) = Responded r \<and>
        r_status r = 200 \<and>
        js_get (elems (js_get (body_json r) ''items'') ! 1) ''product_id'' = JNum 3 \<and>
        js_get (elems (js_get (body_json r) ''items'') ! 1) ''pricing'' =
          JObj [(''amount'', JNum 1), (''shopping_list_qu_id'', JNull)])"
proof -
  have absent: "js_index weekly_purchases (js_get juice_item ''product_id'') = Some JUndef"
    by (simp add: js_index_def weekly_purchases_def juice_item_def dec_eval)
  have row: "stringify (JObj [(''amount'', js_get juice_item ''amount''),
                              (''shopping_list_qu_id'', coalesce (js_get juice_item ''qu_id'') JNull)]) =
             JObj [(''amount'', JNum 1), (''shopping_list_qu_id'', JNull)]"
    by (simp add: juice_item_def coalesce_def)
  have view: "\<exists>r. fst (shopping_list_get env0 (Some ''1'') (fresh grocy)) = Responded r \<and>
        r_status r = 200 \<and>
        js_get (elems (js_get (body_json r) ''items'') ! 1) ''product_id'' = JNum 3 \<and>
        js_get (elems (js_get (body_json r) ''items'') ! 1) ''pricing'' =
          JObj [(''amount'', JNum 1), (''shopping_list_qu_id'', JNull)]"
    unfolding weekly_view by (simp add: body_json_def)
  from failed_details_leave_pricing_undefined[OF absent, of "JObj []" "JObj []"]
  obtain row where "enrich (JObj []) (JObj []) weekly_purchases juice_item = Some row"
    "js_get (js_get row ''pricing'') ''last_price_per_price_unit'' = JUndef"
    "stringify (js_get row ''pricing'') =
       JObj [(''amount'', JNum 1), (''shopping_list_qu_id'', JNull)]"
    unfolding row by blast
  then show ?thesis
    using absent view by blast
qed

end
